theory Spec2Isabelle
  imports Main "HOL-Library.AList"
begin

section \<open>Values, errors and sequencing\<close>

text \<open>
  The drawing layer consists of the modules \<open>svg\<close> (the Vector Backend) and \<open>canvas\<close>
  (the Raster Backend), both built on the module \<open>dom\<close>. Numbers are kept abstract: the
  type variable \<open>'n\<close> stands for the JavaScript Number type. The drawing code only
  compares a number with \<open>0\<close>, uses the default \<open>1\<close>, converts numbers to text and (in the
  ellipse) adds, subtracts and multiplies them, so the sorts used are the syntactic classes
  \<open>zero\<close>, \<open>one\<close>, \<open>plus\<close>, \<open>minus\<close> and \<open>times\<close>, which assume no law of arithmetic.
  The conversion of a number to a string (ECMAScript \<open>ToString\<close>) is a parameter
  \<open>toStr\<close> of every function that builds text from numbers.

  \<open>TypeError\<close> is the exception the JavaScript runtime raises for a property read on
  \<open>undefined\<close> or \<open>null\<close> and for a call of something that is not a function. \<open>InvalidArgument\<close>
  and \<open>ConfigurationError\<close> are the error kinds the specification names; no path of
  the source raises them.
\<close>

datatype error = TypeError | InvalidArgument | ConfigurationError

type_synonym ('s, 'a) action = "'s \<Rightarrow> (error + 'a) \<times> 's"

definition throw :: "error \<Rightarrow> ('s, 'a) action" where
  "throw e s = (Inl e, s)"

definition skip :: "('s, unit) action" where
  "skip s = (Inr (), s)"

text \<open>Statement sequencing: an exception ends the function, keeping the effects so far.\<close>

definition seq :: "('s, unit) action \<Rightarrow> ('s, 'a) action \<Rightarrow> ('s, 'a) action" where
  "seq m1 m2 s = (case m1 s of (Inl e, s') \<Rightarrow> (Inl e, s') | (Inr u, s') \<Rightarrow> m2 s')"

fun steps :: "('s, unit) action list \<Rightarrow> ('s, unit) action" where
  "steps [] = skip"
| "steps (m # ms) = seq m (steps ms)"

section \<open>The Style Descriptor\<close>

text \<open>
  The \<open>style\<close> object of the draw calls. A field is \<open>None\<close> when the property is
  \<open>undefined\<close>. The style argument itself is optional in the documented interface: an
  omitted argument is \<open>undefined\<close>, here \<open>None :: 'n style option\<close>.
\<close>

record 'n style =
  fillColor :: "string option"
  fillOpacity :: "'n option"
  lineColor :: "string option"
  lineWidth :: "'n option"
  lineJoin :: "string option"
  lineCap :: "string option"
  lineOpacity :: "'n option"

section \<open>Module dom: the element store\<close>

text \<open>
  Elements are mutable objects shared by reference, so the document is an explicit store:
  a list of nodes, an element reference being the index of its node. A new element gets
  the next free index. A reference always denotes an object in JavaScript; an operation on
  an index outside the store leaves the document as it is. Attributes are kept in the
  order in which they were first set, as the DOM does; \<open>setAttribute\<close> stores the
  string conversion of its value. A node does not record its parent: an element is
  attached when it occurs in the \<open>childNodes\<close> of another.
\<close>

record node =
  tagName :: string
  attributes :: "(string \<times> string) list"
  childNodes :: "nat list"

type_synonym document = "node list"

definition setAttribute :: "nat \<Rightarrow> string \<Rightarrow> string \<Rightarrow> document \<Rightarrow> document" where
  "setAttribute element property v d =
     d[element := (d ! element)\<lparr>attributes := AList.update property v (attributes (d ! element))\<rparr>]"

definition getAttribute :: "document \<Rightarrow> nat \<Rightarrow> string \<Rightarrow> string option" where
  "getAttribute d element property = map_of (attributes (d ! element)) property"

text \<open>\<open>dom.attr\<close>: one \<open>setAttribute\<close> per own property of the object, in insertion order.\<close>

definition attr :: "nat \<Rightarrow> (string \<times> string) list \<Rightarrow> document \<Rightarrow> document" where
  "attr element attrs d = fold (\<lambda>(property, v). setAttribute element property v) attrs d"

text \<open>
  \<open>dom.createSVGElement(type, attributes)\<close> as \<open>svg.createElement(type)\<close> calls it: the
  attribute object is \<open>undefined\<close>, over which the \<open>for ... in\<close> loop of \<open>dom.attr\<close> does
  not iterate, so the new element has no attribute.
\<close>

definition createSVGElement :: "string \<Rightarrow> document \<Rightarrow> nat \<times> document" where
  "createSVGElement type d =
     (length d, d @ [\<lparr>tagName = type, attributes = [], childNodes = []\<rparr>])"

text \<open>
  \<open>dom.appendChild\<close>: the child becomes the last child of the parent. The only caller in
  the drawing layer passes the element it has just created, which has no parent yet.
\<close>

definition appendChild :: "nat \<Rightarrow> nat \<Rightarrow> document \<Rightarrow> document" where
  "appendChild parentElement childElement d =
     d[parentElement := (d ! parentElement)
         \<lparr>childNodes := childNodes (d ! parentElement) @ [childElement]\<rparr>]"

definition removeChild :: "nat \<Rightarrow> nat \<Rightarrow> document \<Rightarrow> document" where
  "removeChild element child d =
     d[element := (d ! element)\<lparr>childNodes := remove1 child (childNodes (d ! element))\<rparr>]"

text \<open>
  \<open>dom.empty\<close>: \<open>while (element.firstChild) element.removeChild(element.firstChild)\<close>.
\<close>

function dom_empty :: "nat \<Rightarrow> document \<Rightarrow> document" where
  "dom_empty element d =
     (if element < length d then
        (case childNodes (d ! element) of
           [] \<Rightarrow> d
         | firstChild # rest \<Rightarrow> dom_empty element (removeChild element firstChild d))
      else d)"
  by pat_completeness auto
termination
  by (relation "measure (\<lambda>(element, d). length (childNodes (d ! element)))")
     (auto simp: removeChild_def)

section \<open>Module svg: the Vector Backend\<close>

definition svg_createElement :: "string \<Rightarrow> document \<Rightarrow> nat \<times> document" where
  "svg_createElement type d = createSVGElement type d"

definition svg_getContext :: "nat \<Rightarrow> string \<Rightarrow> document \<Rightarrow> nat \<times> document" where
  "svg_getContext parentElement type d =
     (let (element, d1) = svg_createElement type d
      in (element, appendChild parentElement element d1))"

text \<open>\<open>svg.clear\<close> has an empty body; \<open>svg.empty\<close> calls \<open>dom.empty\<close>.\<close>

definition svg_clear :: "nat \<Rightarrow> (document, unit) action" where
  "svg_clear element = skip"

definition svg_empty :: "nat \<Rightarrow> (document, unit) action" where
  "svg_empty element d = (Inr (), dom_empty element d)"

text \<open>
  Reading \<open>arrCoords[j]\<close> and converting it to a string: an index past the end reads
  \<open>undefined\<close>, whose string conversion is the text \<open>undefined\<close>.
\<close>

definition coordToString :: "('n \<Rightarrow> string) \<Rightarrow> 'n list \<Rightarrow> nat \<Rightarrow> string" where
  "coordToString toStr arrCoords j =
     (if j < length arrCoords then toStr (arrCoords ! j) else ''undefined'')"

text \<open>The loop of \<open>getCoordsAsString\<close>, with its counter \<open>i\<close> and accumulator \<open>strPoints\<close>.\<close>

function getCoordsLoop :: "('n \<Rightarrow> string) \<Rightarrow> 'n list \<Rightarrow> nat \<Rightarrow> string \<Rightarrow> string" where
  "getCoordsLoop toStr arrCoords i strPoints =
     (if i < length arrCoords then
        getCoordsLoop toStr arrCoords (i + 2)
          ((if i \<noteq> 0 then strPoints @ '','' else strPoints)
             @ coordToString toStr arrCoords i @ '' '' @ coordToString toStr arrCoords (i + 1))
      else strPoints)"
  by pat_completeness auto
termination
  by (relation "measure (\<lambda>(toStr, arrCoords, i, strPoints). length arrCoords - i)") auto

definition getCoordsAsString :: "('n \<Rightarrow> string) \<Rightarrow> 'n list \<Rightarrow> string" where
  "getCoordsAsString toStr arrCoords = getCoordsLoop toStr arrCoords 0 ''''"

text \<open>
  \<open>draw\<close> of the module svg. \<open>toRGBA\<close> is \<open>colorUtil.toRGBA\<close> of the module \<open>color\<close>,
  taken as a parameter: its second argument is \<open>None\<close> when the call passes one argument
  only. Reading a property of an \<open>undefined\<close> style raises a \<open>TypeError\<close>.
\<close>

definition svg_draw ::
  "(string \<Rightarrow> 'n option \<Rightarrow> string) \<Rightarrow> ('n::one \<Rightarrow> string) \<Rightarrow> nat \<Rightarrow> 'n style option
     \<Rightarrow> (document, unit) action" where
  "svg_draw toRGBA toStr element style =
     (case style of
        None \<Rightarrow> throw TypeError
      | Some st \<Rightarrow>
          (let fillColor0 = (case fillColor st of Some c \<Rightarrow> toRGBA c None | None \<Rightarrow> ''none'');
               fillColor1 = (if fillColor0 \<noteq> ''none'' \<and> fillOpacity st \<noteq> None
                             then toRGBA fillColor0 (fillOpacity st) else fillColor0);
               lineWidth' = (case lineWidth st of Some w \<Rightarrow> w | None \<Rightarrow> 1);
               lineJoin' = (case lineJoin st of Some j \<Rightarrow> j | None \<Rightarrow> ''round'');
               lineCap' = (case lineCap st of Some c \<Rightarrow> c | None \<Rightarrow> ''butt'');
               lineColor0 = (case lineColor st of Some c \<Rightarrow> toRGBA c None | None \<Rightarrow> ''none'');
               lineColor1 = (if lineColor0 \<noteq> ''none'' \<and> lineOpacity st \<noteq> None
                             then toRGBA lineColor0 (lineOpacity st) else lineColor0)
           in (\<lambda>d. (Inr (), attr element
                 [(''fill'', fillColor1),
                  (''stroke'', lineColor1),
                  (''stroke-width'', toStr lineWidth'),
                  (''stroke-linejoin'', lineJoin'),
                  (''stroke-linecap'', lineCap')] d))))"

definition svg_attr :: "nat \<Rightarrow> (string \<times> string) list \<Rightarrow> (document, unit) action" where
  "svg_attr element attrs d = (Inr (), attr element attrs d)"

definition svg_circle ::
  "(string \<Rightarrow> 'n option \<Rightarrow> string) \<Rightarrow> ('n::one \<Rightarrow> string) \<Rightarrow> nat \<Rightarrow> 'n \<Rightarrow> 'n \<Rightarrow> 'n
     \<Rightarrow> 'n style option \<Rightarrow> (document, unit) action" where
  "svg_circle toRGBA toStr element cx cy r style =
     steps [svg_attr element [(''cx'', toStr cx), (''cy'', toStr cy), (''r'', toStr r)],
            svg_draw toRGBA toStr element style]"

definition svg_ellipse ::
  "(string \<Rightarrow> 'n option \<Rightarrow> string) \<Rightarrow> ('n::one \<Rightarrow> string) \<Rightarrow> nat \<Rightarrow> 'n \<Rightarrow> 'n \<Rightarrow> 'n \<Rightarrow> 'n
     \<Rightarrow> 'n style option \<Rightarrow> (document, unit) action" where
  "svg_ellipse toRGBA toStr element cx cy rx ry style =
     steps [svg_attr element
              [(''cx'', toStr cx), (''cy'', toStr cy), (''rx'', toStr rx), (''ry'', toStr ry)],
            svg_draw toRGBA toStr element style]"

definition svg_rect ::
  "(string \<Rightarrow> 'n option \<Rightarrow> string) \<Rightarrow> ('n::one \<Rightarrow> string) \<Rightarrow> nat \<Rightarrow> 'n \<Rightarrow> 'n \<Rightarrow> 'n \<Rightarrow> 'n
     \<Rightarrow> 'n style option \<Rightarrow> (document, unit) action" where
  "svg_rect toRGBA toStr element x y w h style =
     steps [svg_attr element
              [(''x'', toStr x), (''y'', toStr y), (''width'', toStr w), (''height'', toStr h)],
            svg_draw toRGBA toStr element style]"

definition svg_line ::
  "(string \<Rightarrow> 'n option \<Rightarrow> string) \<Rightarrow> ('n::one \<Rightarrow> string) \<Rightarrow> nat \<Rightarrow> 'n \<Rightarrow> 'n \<Rightarrow> 'n \<Rightarrow> 'n
     \<Rightarrow> 'n style option \<Rightarrow> (document, unit) action" where
  "svg_line toRGBA toStr element x1 y1 x2 y2 style =
     steps [svg_attr element
              [(''x1'', toStr x1), (''y1'', toStr y1), (''x2'', toStr x2), (''y2'', toStr y2)],
            svg_draw toRGBA toStr element style]"

definition svg_polyline ::
  "(string \<Rightarrow> 'n option \<Rightarrow> string) \<Rightarrow> ('n::one \<Rightarrow> string) \<Rightarrow> nat \<Rightarrow> 'n list
     \<Rightarrow> 'n style option \<Rightarrow> (document, unit) action" where
  "svg_polyline toRGBA toStr element arrCoords style =
     steps [svg_attr element [(''points'', getCoordsAsString toStr arrCoords)],
            svg_draw toRGBA toStr element style]"

definition svg_polygon ::
  "(string \<Rightarrow> 'n option \<Rightarrow> string) \<Rightarrow> ('n::one \<Rightarrow> string) \<Rightarrow> nat \<Rightarrow> 'n list
     \<Rightarrow> 'n style option \<Rightarrow> (document, unit) action" where
  "svg_polygon toRGBA toStr element arrCoords style =
     steps [svg_attr element [(''points'', getCoordsAsString toStr arrCoords)],
            svg_draw toRGBA toStr element style]"

section \<open>Module canvas: the Raster Backend\<close>

text \<open>
  The 2D context is an immediate-mode object: the model records, in order, the method
  calls and property assignments it receives. \<open>Arc cx cy r\<close> is the call
  \<open>arc(cx, cy, r, 0, 2 * Math.PI, false)\<close>, whose last three arguments are constants of
  the source. The coordinates of \<open>moveTo\<close> and \<open>lineTo\<close> are optional because
  \<open>polyline\<close> passes what it reads from the array, which is \<open>undefined\<close> past the end.
\<close>

datatype 'n command =
    BeginPath
  | MoveTo "'n option" "'n option"
  | LineTo "'n option" "'n option"
  | Arc 'n 'n 'n
  | BezierCurveTo 'n 'n 'n 'n 'n 'n
  | Rect 'n 'n 'n 'n
  | ClosePath
  | SetFillStyle string
  | Fill
  | SetLineWidth 'n
  | SetLineJoin string
  | SetLineCap string
  | SetStrokeStyle string
  | Stroke
  | ClearRect 'n 'n 'n 'n

text \<open>
  What a function receives as its \<open>ctx\<close> argument: the 2D context; \<open>null\<close>, which
  \<open>getContext\<close> gives for a canvas that yields no 2D context; or an array (the value
  \<open>polygon\<close> hands to \<open>polyline\<close>).
\<close>

datatype 'n target = Context2D | Null | Array "'n list"

text \<open>
  A method call \<open>ctx.m(...)\<close>. Reading a property of \<open>null\<close> raises a \<open>TypeError\<close>. An
  array has none of the methods of a context but \<open>fill\<close>: for the others the property
  reads \<open>undefined\<close> and calling it raises a \<open>TypeError\<close>; \<open>Array.prototype.fill\<close>,
  called without an argument, returns normally and sends nothing to the context (it
  overwrites the elements of the array, which no function reads afterwards).
\<close>

definition call :: "'n target \<Rightarrow> 'n command \<Rightarrow> ('n command list, unit) action" where
  "call ctx c s =
     (case ctx of
        Context2D \<Rightarrow> (Inr (), s @ [c])
      | Null \<Rightarrow> (Inl TypeError, s)
      | Array a \<Rightarrow> (case c of Fill \<Rightarrow> (Inr (), s) | _ \<Rightarrow> (Inl TypeError, s)))"

text \<open>
  A property assignment \<open>ctx.p = v\<close>: on \<open>null\<close> it raises a \<open>TypeError\<close>; on an array it
  succeeds and does nothing to the context.
\<close>

definition assign :: "'n target \<Rightarrow> 'n command \<Rightarrow> ('n command list, unit) action" where
  "assign ctx c s =
     (case ctx of
        Context2D \<Rightarrow> (Inr (), s @ [c])
      | Null \<Rightarrow> (Inl TypeError, s)
      | Array a \<Rightarrow> (Inr (), s))"

text \<open>\<open>draw\<close> of the module canvas.\<close>

definition canvas_draw ::
  "(string \<Rightarrow> 'n option \<Rightarrow> string) \<Rightarrow> 'n target \<Rightarrow> ('n::{zero,one}) style option
     \<Rightarrow> ('n command list, unit) action" where
  "canvas_draw toRGBA ctx style =
     (case style of
        None \<Rightarrow> throw TypeError
      | Some st \<Rightarrow>
          steps
            [(case fillColor st of
                Some c \<Rightarrow>
                  steps [assign ctx (SetFillStyle
                           (case fillOpacity st of Some a \<Rightarrow> toRGBA c (Some a)
                                                 | None \<Rightarrow> toRGBA c None)),
                         call ctx Fill]
              | None \<Rightarrow> skip),
             (case lineColor st of
                Some c \<Rightarrow>
                  if lineWidth st \<noteq> Some 0 then
                    steps [assign ctx (SetLineWidth
                             (case lineWidth st of Some w \<Rightarrow> w | None \<Rightarrow> 1)),
                           assign ctx (SetLineJoin
                             (case lineJoin st of Some j \<Rightarrow> j | None \<Rightarrow> ''round'')),
                           assign ctx (SetLineCap
                             (case lineCap st of Some k \<Rightarrow> k | None \<Rightarrow> ''butt'')),
                           assign ctx (SetStrokeStyle
                             (case lineOpacity st of Some a \<Rightarrow> toRGBA c (Some a)
                                                   | None \<Rightarrow> toRGBA c None)),
                           call ctx Stroke]
                  else skip
              | None \<Rightarrow> skip)])"

definition canvas_circle ::
  "(string \<Rightarrow> 'n option \<Rightarrow> string) \<Rightarrow> 'n target \<Rightarrow> 'n \<Rightarrow> 'n \<Rightarrow> 'n
     \<Rightarrow> ('n::{zero,one}) style option \<Rightarrow> ('n command list, unit) action" where
  "canvas_circle toRGBA ctx cx cy r style =
     steps [call ctx BeginPath, call ctx (Arc cx cy r), canvas_draw toRGBA ctx style]"

text \<open>\<open>kappa\<close> is the literal \<open>0.5522848\<close> of the source, as a number of type \<open>'n\<close>.\<close>

definition canvas_ellipse ::
  "'n \<Rightarrow> (string \<Rightarrow> 'n option \<Rightarrow> string) \<Rightarrow> 'n target \<Rightarrow> 'n \<Rightarrow> 'n \<Rightarrow> 'n \<Rightarrow> 'n
     \<Rightarrow> ('n::{zero,one,plus,minus,times}) style option \<Rightarrow> ('n command list, unit) action" where
  "canvas_ellipse kappa toRGBA ctx cx cy rx ry style =
     (let x = cx - rx; y = cy - ry; xe = cx + rx; ye = cy + ry;
          ox = rx * kappa; oy = ry * kappa
      in steps [call ctx BeginPath,
                call ctx (MoveTo (Some x) (Some cy)),
                call ctx (BezierCurveTo x (cy - oy) (cx - ox) y cx y),
                call ctx (BezierCurveTo (cx + ox) y xe (cy - oy) xe cy),
                call ctx (BezierCurveTo xe (cy + oy) (cx + ox) ye cx ye),
                call ctx (BezierCurveTo (cx - ox) ye x (cy + oy) x cy),
                canvas_draw toRGBA ctx style])"

definition canvas_rect ::
  "(string \<Rightarrow> 'n option \<Rightarrow> string) \<Rightarrow> 'n target \<Rightarrow> 'n \<Rightarrow> 'n \<Rightarrow> 'n \<Rightarrow> 'n
     \<Rightarrow> ('n::{zero,one}) style option \<Rightarrow> ('n command list, unit) action" where
  "canvas_rect toRGBA ctx x y w h style =
     steps [call ctx BeginPath, call ctx (Rect x y w h), canvas_draw toRGBA ctx style]"

definition canvas_line ::
  "(string \<Rightarrow> 'n option \<Rightarrow> string) \<Rightarrow> 'n target \<Rightarrow> 'n \<Rightarrow> 'n \<Rightarrow> 'n \<Rightarrow> 'n
     \<Rightarrow> ('n::{zero,one}) style option \<Rightarrow> ('n command list, unit) action" where
  "canvas_line toRGBA ctx x1 y1 x2 y2 style =
     steps [call ctx BeginPath,
            call ctx (MoveTo (Some x1) (Some y1)),
            call ctx (LineTo (Some x2) (Some y2)),
            canvas_draw toRGBA ctx style]"

text \<open>Reading \<open>arrCoords[j]\<close>: \<open>undefined\<close> past the end of the array.\<close>

definition coordAt :: "'n list \<Rightarrow> nat \<Rightarrow> 'n option" where
  "coordAt arrCoords j = (if j < length arrCoords then Some (arrCoords ! j) else None)"

text \<open>The loop of \<open>polyline\<close> of the module canvas, with its counter \<open>i\<close>.\<close>

function polylineLoop :: "'n target \<Rightarrow> 'n list \<Rightarrow> nat \<Rightarrow> ('n command list, unit) action" where
  "polylineLoop ctx arrCoords i s =
     (if i < length arrCoords then
        (let x = coordAt arrCoords i; y = coordAt arrCoords (i + 1)
         in case (if i = 0 then call ctx (MoveTo x y) s else call ctx (LineTo x y) s) of
              (Inl e, s') \<Rightarrow> (Inl e, s')
            | (Inr u, s') \<Rightarrow> polylineLoop ctx arrCoords (i + 2) s')
      else (Inr (), s))"
  by pat_completeness auto
termination
  by (relation "measure (\<lambda>(ctx, arrCoords, i, s). length arrCoords - i)") auto

text \<open>
  \<open>polyline\<close> of the module canvas. Its \<open>arrCoords\<close> argument is optional in the model
  because \<open>polygon\<close> calls it with one argument: \<open>arrCoords.length\<close> on \<open>undefined\<close> raises
  a \<open>TypeError\<close>.
\<close>

definition canvas_polyline ::
  "(string \<Rightarrow> 'n option \<Rightarrow> string) \<Rightarrow> 'n target \<Rightarrow> 'n list option
     \<Rightarrow> ('n::{zero,one}) style option \<Rightarrow> ('n command list, unit) action" where
  "canvas_polyline toRGBA ctx arrCoords style =
     steps [call ctx BeginPath,
            (case arrCoords of None \<Rightarrow> throw TypeError
                             | Some a \<Rightarrow> polylineLoop ctx a 0),
            canvas_draw toRGBA ctx style]"

text \<open>
  \<open>polygon\<close> of the module canvas. Its first statement is \<open>polyline(arrCoords)\<close>: the
  array is passed in the place of \<open>ctx\<close>, and \<open>arrCoords\<close> and \<open>style\<close> are
  \<open>undefined\<close> in the callee.
\<close>

definition canvas_polygon ::
  "(string \<Rightarrow> 'n option \<Rightarrow> string) \<Rightarrow> 'n target \<Rightarrow> 'n list
     \<Rightarrow> ('n::{zero,one}) style option \<Rightarrow> ('n command list, unit) action" where
  "canvas_polygon toRGBA ctx arrCoords style =
     steps [canvas_polyline toRGBA (Array arrCoords) None None,
            call ctx ClosePath,
            canvas_draw toRGBA ctx style]"






section \<open>Capability probes\<close>





section \<open>The Color Resolver\<close>

text \<open>
  Both backends require the module \<open>color\<close> and call its function
  \<open>colorUtil.toRGBA\<close>; the module is not among the source files. The draw functions
  above take the function as their parameter \<open>toRGBA\<close>. Where a property depends on what
  the resolver returns, it is stated for the following model of it.
\<close>

record 'n rgba =
  red :: 'n
  green :: 'n
  blue :: 'n
  alpha :: 'n

text \<open>
  Modelled from the spec: the normalized RGBA color string that the missing function
  \<open>colorUtil.toRGBA\<close> renders. The specification gives \<open>rgba(255,0,0,1)\<close> as the
  resolved form of \<open>#ff0000\<close>.
\<close>

definition rgbaString :: "('n \<Rightarrow> string) \<Rightarrow> 'n rgba \<Rightarrow> string" where
  "rgbaString toStr c =
     ''rgba('' @ toStr (red c) @ '','' @ toStr (green c) @ '','' @ toStr (blue c)
       @ '','' @ toStr (alpha c) @ '')''"

text \<open>
  Modelled from the spec: the missing function \<open>colorUtil.toRGBA(color, opacity)\<close>, which
  the specification describes as the conversion of a color string to a normalized RGBA
  color string with an optional alpha override. The alpha channel of the result is the
  explicit opacity when one is passed and the alpha of the parsed color otherwise. The
  color formats accepted are not specified: \<open>parse\<close>, which reads a color string into
  its channels, is a parameter.
\<close>

definition colorUtil_toRGBA ::
  "(string \<Rightarrow> 'n rgba) \<Rightarrow> ('n \<Rightarrow> string) \<Rightarrow> string \<Rightarrow> 'n option \<Rightarrow> string" where
  "colorUtil_toRGBA parse toStr c opacity =
     rgbaString toStr (case opacity of None \<Rightarrow> parse c | Some a \<Rightarrow> (parse c)\<lparr>alpha := a\<rparr>)"

section \<open>The point string of the specification\<close>

text \<open>
  The specification's form of the \<open>points\<close> attribute for the pairs
  \<open>(x1, y1), ..., (xn, yn)\<close>: the two coordinates of a pair separated by one space, the
  pairs separated by commas. \<open>coords\<close> is the Coordinate List of the pairs, that is the
  interleaved list \<open>[x1, y1, ..., xn, yn]\<close>; the lists of even length are the lists of
  this form.
\<close>

fun pointsString :: "('n \<Rightarrow> string) \<Rightarrow> ('n \<times> 'n) list \<Rightarrow> string" where
  "pointsString toStr [] = []"
| "pointsString toStr [(x, y)] = toStr x @ '' '' @ toStr y"
| "pointsString toStr ((x, y) # p # ps) =
     toStr x @ '' '' @ toStr y @ '','' @ pointsString toStr (p # ps)"

fun coords :: "('n \<times> 'n) list \<Rightarrow> 'n list" where
  "coords [] = []"
| "coords ((x, y) # ps) = x # y # coords ps"

section \<open>Observations on the command list and auxiliary functions\<close>

text \<open>The values assigned to \<open>fillStyle\<close> and to \<open>strokeStyle\<close>, in order.\<close>

fun fillStyles :: "'n command list \<Rightarrow> string list" where
  "fillStyles [] = []"
| "fillStyles (SetFillStyle v # cs) = v # fillStyles cs"
| "fillStyles (c # cs) = fillStyles cs"

fun strokeStyles :: "'n command list \<Rightarrow> string list" where
  "strokeStyles [] = []"
| "strokeStyles (SetStrokeStyle v # cs) = v # strokeStyles cs"
| "strokeStyles (c # cs) = strokeStyles cs"

text \<open>
  What the two loops produce from the coordinates still to be read: the texts of the pairs
  (the last pair of a list of odd length has no second coordinate), joined by commas, and
  the path commands, the first of which is a \<open>moveTo\<close>.
\<close>

fun pairStrings :: "('n \<Rightarrow> string) \<Rightarrow> 'n list \<Rightarrow> string list" where
  "pairStrings toStr [] = []"
| "pairStrings toStr [x] = [toStr x @ '' undefined'']"
| "pairStrings toStr (x # y # r) = (toStr x @ '' '' @ toStr y) # pairStrings toStr r"

fun joinComma :: "string list \<Rightarrow> string" where
  "joinComma [] = []"
| "joinComma [a] = a"
| "joinComma (a # b # r) = a @ '','' @ joinComma (b # r)"

fun pathCommands :: "bool \<Rightarrow> 'n list \<Rightarrow> 'n command list" where
  "pathCommands first [] = []"
| "pathCommands first [x] = [if first then MoveTo (Some x) None else LineTo (Some x) None]"
| "pathCommands first (x # y # r) =
     (if first then MoveTo (Some x) (Some y) else LineTo (Some x) (Some y))
       # pathCommands False r"

text \<open>
  The commands \<open>draw\<close> of the module canvas sends to a 2D context for a given style: the
  fill part, then the stroke part.
\<close>

definition drawCommands ::
  "(string \<Rightarrow> 'n option \<Rightarrow> string) \<Rightarrow> ('n::{zero,one}) style \<Rightarrow> 'n command list" where
  "drawCommands toRGBA st =
     (case fillColor st of
        Some c \<Rightarrow> [SetFillStyle (toRGBA c (fillOpacity st)), Fill]
      | None \<Rightarrow> [])
     @ (case lineColor st of
          Some c \<Rightarrow>
            if lineWidth st \<noteq> Some 0 then
              [SetLineWidth (case lineWidth st of Some w \<Rightarrow> w | None \<Rightarrow> 1),
               SetLineJoin (case lineJoin st of Some j \<Rightarrow> j | None \<Rightarrow> ''round''),
               SetLineCap (case lineCap st of Some k \<Rightarrow> k | None \<Rightarrow> ''butt''),
               SetStrokeStyle (toRGBA c (lineOpacity st)),
               Stroke]
            else []
        | None \<Rightarrow> [])"

text \<open>
  The attributes \<open>draw\<close> of the module svg writes for a given style, in the order of
  the source.
\<close>

definition styleAttributes ::
  "(string \<Rightarrow> 'n option \<Rightarrow> string) \<Rightarrow> ('n::one \<Rightarrow> string) \<Rightarrow> 'n style
     \<Rightarrow> (string \<times> string) list" where
  "styleAttributes toRGBA toStr st =
     [(''fill'',
         (case fillColor st of
            None \<Rightarrow> ''none''
          | Some c \<Rightarrow>
              if toRGBA c None \<noteq> ''none'' \<and> fillOpacity st \<noteq> None
              then toRGBA (toRGBA c None) (fillOpacity st) else toRGBA c None)),
      (''stroke'',
         (case lineColor st of
            None \<Rightarrow> ''none''
          | Some c \<Rightarrow>
              if toRGBA c None \<noteq> ''none'' \<and> lineOpacity st \<noteq> None
              then toRGBA (toRGBA c None) (lineOpacity st) else toRGBA c None)),
      (''stroke-width'', toStr (case lineWidth st of Some w \<Rightarrow> w | None \<Rightarrow> 1)),
      (''stroke-linejoin'', (case lineJoin st of Some j \<Rightarrow> j | None \<Rightarrow> ''round'')),
      (''stroke-linecap'', (case lineCap st of Some k \<Rightarrow> k | None \<Rightarrow> ''butt''))]"

section \<open>Concrete instances for evaluation\<close>

text \<open>
  For evaluating the functions on concrete inputs the numbers are integers, whose string
  conversion is their decimal numeral, and the color parser knows the colors that the
  scenarios of the specification use, in the form given there and in normalized form.
\<close>

fun showNat :: "nat \<Rightarrow> string" where
  "showNat n =
     (if n < 10 then [''0123456789'' ! n]
      else showNat (n div 10) @ [''0123456789'' ! (n mod 10)])"

definition showInt :: "int \<Rightarrow> string" where
  "showInt i = (if i < 0 then CHR ''-'' # showNat (nat (- i)) else showNat (nat i))"

definition sampleColor :: "string \<Rightarrow> int rgba" where
  "sampleColor c =
     (if c = ''#ff0000'' \<or> c = ''rgba(255,0,0,1)''
      then \<lparr>red = 255, green = 0, blue = 0, alpha = 1\<rparr>
      else if c = ''blue'' \<or> c = ''rgba(0,0,255,1)''
      then \<lparr>red = 0, green = 0, blue = 255, alpha = 1\<rparr>
      else \<lparr>red = 0, green = 0, blue = 0, alpha = 1\<rparr>)"

definition sampleRGBA :: "string \<Rightarrow> int option \<Rightarrow> string" where
  "sampleRGBA = colorUtil_toRGBA sampleColor showInt"

definition noStyle :: "int style" where
  "noStyle = \<lparr>fillColor = None, fillOpacity = None, lineColor = None, lineWidth = None,
              lineJoin = None, lineCap = None, lineOpacity = None\<rparr>"

text \<open>A document with an \<open>svg\<close> surface (node 0) that has one child, a \<open>circle\<close> (node 1).\<close>

definition sampleDocument :: document where
  "sampleDocument =
     [\<lparr>tagName = ''svg'', attributes = [], childNodes = [1]\<rparr>,
      \<lparr>tagName = ''circle'', attributes = [], childNodes = []\<rparr>]"


section \<open>Auxiliary lemmas\<close>

declare getCoordsLoop.simps [simp del] polylineLoop.simps [simp del] dom_empty.simps [simp del]

lemma seq_skip: "seq m skip = m"
  by (rule ext) (simp add: seq_def skip_def split: prod.splits sum.splits)

lemma seq_svg_attr: "seq (svg_attr element attrs) m d = m (attr element attrs d)"
  by (simp add: seq_def svg_attr_def)

subsection \<open>The loop of \<open>getCoordsAsString\<close>\<close>

lemma pairStrings_Nil_iff: "pairStrings toStr xs = [] \<longleftrightarrow> xs = []"
  by (induction toStr xs rule: pairStrings.induct) auto

lemma joinComma_Cons: "joinComma (a # r) = (if r = [] then a else a @ '','' @ joinComma r)"
  by (cases r) auto

lemma getCoordsLoop_eq:
  "getCoordsLoop toStr arrCoords i strPoints =
     (if drop i arrCoords = [] then strPoints
      else (if i \<noteq> 0 then strPoints @ '','' else strPoints)
             @ joinComma (pairStrings toStr (drop i arrCoords)))"
proof (induction toStr arrCoords i strPoints rule: getCoordsLoop.induct)
  case (1 toStr arrCoords i strPoints)
  show ?case
  proof (cases "i < length arrCoords")
    case False
    then show ?thesis by (subst getCoordsLoop.simps) simp
  next
    case True
    note lt = True
    show ?thesis
    proof (cases "i + 1 < length arrCoords")
      case True
      then have d: "drop i arrCoords = arrCoords ! i # arrCoords ! (i + 1) # drop (i + 2) arrCoords"
        using lt by (metis Cons_nth_drop_Suc Suc_eq_plus1 add_2_eq_Suc')
      show ?thesis
        using 1 [OF lt] lt True
        by (subst getCoordsLoop.simps)
           (simp add: d coordToString_def joinComma_Cons pairStrings_Nil_iff)
    next
      case False
      then have d: "drop i arrCoords = [arrCoords ! i]" and e: "drop (i + 2) arrCoords = []"
        using lt by (simp_all add: Cons_nth_drop_Suc [symmetric])
      show ?thesis
        using 1 [OF lt] lt False
        by (subst getCoordsLoop.simps)
           (simp add: d e coordToString_def)
    qed
  qed
qed

lemma getCoordsAsString_eq:
  "getCoordsAsString toStr arrCoords = joinComma (pairStrings toStr arrCoords)"
  by (cases arrCoords) (simp_all add: getCoordsAsString_def getCoordsLoop_eq)

lemma coords_Nil_iff: "coords ps = [] \<longleftrightarrow> ps = []"
  by (cases ps) auto

lemma joinComma_pairStrings_coords:
  "joinComma (pairStrings toStr (coords ps)) = pointsString toStr ps"
  by (induction toStr ps rule: pointsString.induct)
     (simp_all add: joinComma_Cons pairStrings_Nil_iff coords_Nil_iff)

subsection \<open>Attributes\<close>

lemma getAttribute_setAttribute:
  "element < length d \<Longrightarrow>
     getAttribute (setAttribute element property v d) element k =
       (if k = property then Some v else getAttribute d element k)"
  by (simp add: getAttribute_def setAttribute_def update_conv')

lemma length_setAttribute: "length (setAttribute element property v d) = length d"
  by (simp add: setAttribute_def)

lemma length_attr: "length (attr element attrs d) = length d"
  unfolding attr_def
  by (induction attrs arbitrary: d) (auto simp: length_setAttribute)

lemma getAttribute_attr:
  "element < length d \<Longrightarrow>
     getAttribute (attr element attrs d) element k =
       (case map_of (rev attrs) k of Some v \<Rightarrow> Some v | None \<Rightarrow> getAttribute d element k)"
  unfolding attr_def
proof (induction attrs arbitrary: d)
  case Nil
  then show ?case by simp
next
  case (Cons a attrs)
  obtain p v where a: "a = (p, v)" by (cases a)
  have "element < length (setAttribute element p v d)"
    using Cons.prems by (simp add: length_setAttribute)
  from Cons.IH [OF this] Cons.prems show ?case
    by (auto simp: a getAttribute_setAttribute map_add_def split: option.splits)
qed

lemma svg_draw_points:
  "element < length d \<Longrightarrow>
     getAttribute (snd (svg_draw toRGBA toStr element style d)) element ''points''
       = getAttribute d element ''points''"
proof (cases style)
  case None
  then show ?thesis by (simp add: svg_draw_def throw_def)
next
  case (Some st)
  assume "element < length d"
  then show ?thesis
    unfolding svg_draw_def Some Let_def option.case snd_conv
    by (subst getAttribute_attr) simp_all
qed

lemma svg_polyline_points:
  "element < length d \<Longrightarrow>
     getAttribute (snd (svg_polyline toRGBA toStr element arrCoords style d)) element ''points''
       = Some (getCoordsAsString toStr arrCoords)"
  by (simp add: svg_polyline_def seq_skip seq_svg_attr svg_draw_points length_attr
        getAttribute_attr)

lemma svg_polygon_points:
  "element < length d \<Longrightarrow>
     getAttribute (snd (svg_polygon toRGBA toStr element arrCoords style d)) element ''points''
       = Some (getCoordsAsString toStr arrCoords)"
  by (simp add: svg_polygon_def seq_skip seq_svg_attr svg_draw_points length_attr
        getAttribute_attr)

subsection \<open>The Raster Backend on a 2D context\<close>

lemma seq_skip_left: "seq skip m = m"
  by (rule ext) (simp add: seq_def skip_def)

lemma seq_throw: "seq (throw e) m s = (Inl e, s)"
  by (simp add: seq_def throw_def)

lemma seq_call_Context: "seq (call Context2D c) m s = m (s @ [c])"
  by (simp add: seq_def call_def)

lemma seq_assign_Context: "seq (assign Context2D c) m s = m (s @ [c])"
  by (simp add: seq_def assign_def)

lemma seq_call_Null: "seq (call Null c) m s = (Inl TypeError, s)"
  by (simp add: seq_def call_def)

lemma seq_call_Array_BeginPath: "seq (call (Array a) BeginPath) m s = (Inl TypeError, s)"
  by (simp add: seq_def call_def)

lemma seq_call_cases:
  "seq (call ctx c) m s = (Inl TypeError, s) \<or> (\<exists>s'. seq (call ctx c) m s = m s')"
proof (cases ctx)
  case Context2D
  then show ?thesis by (auto simp: seq_def call_def)
next
  case Null
  then show ?thesis by (simp add: seq_def call_def)
next
  case (Array a)
  then show ?thesis by (cases c) (auto simp: seq_def call_def)
qed

lemma seq_assoc: "seq (seq m1 m2) m3 = seq m1 (seq m2 m3)"
  by (rule ext) (simp add: seq_def split: prod.splits sum.splits)

lemma polylineLoop_step:
  "i < length arrCoords \<Longrightarrow>
     polylineLoop Context2D arrCoords i s =
       polylineLoop Context2D arrCoords (i + 2)
         (s @ [if i = 0 then MoveTo (coordAt arrCoords i) (coordAt arrCoords (i + 1))
               else LineTo (coordAt arrCoords i) (coordAt arrCoords (i + 1))])"
  by (subst polylineLoop.simps) (simp add: call_def Let_def)

lemma polylineLoop_done:
  "\<not> i < length arrCoords \<Longrightarrow> polylineLoop ctx arrCoords i s = (Inr (), s)"
  by (subst polylineLoop.simps) simp

lemma polylineLoop_Array:
  "i < length arrCoords \<Longrightarrow> polylineLoop (Array a) arrCoords i s = (Inl TypeError, s)"
  by (subst polylineLoop.simps) (simp add: call_def Let_def)

lemma pathCommands_Cons2:
  "pathCommands first (x # y # r) =
     (if first then MoveTo (Some x) (Some y) else LineTo (Some x) (Some y)) # pathCommands False r"
  by simp

lemma polylineLoop_Context:
  "polylineLoop Context2D arrCoords i s = (Inr (), s @ pathCommands (i = 0) (drop i arrCoords))"
proof (induction "length arrCoords - i" arbitrary: i s rule: less_induct)
  case less
  show ?case
  proof (cases "i < length arrCoords")
    case False
    then show ?thesis by (simp add: polylineLoop_done)
  next
    case True
    note lt = True
    have ih: "polylineLoop Context2D arrCoords (i + 2) s' =
                (Inr (), s' @ pathCommands False (drop (i + 2) arrCoords))" for s'
      using less [of "i + 2" s'] lt by simp
    show ?thesis
    proof (cases "i + 1 < length arrCoords")
      case True
      then have d: "drop i arrCoords = arrCoords ! i # arrCoords ! (i + 1) # drop (i + 2) arrCoords"
        using lt by (metis Cons_nth_drop_Suc Suc_eq_plus1 add_2_eq_Suc')
      have c: "coordAt arrCoords i = Some (arrCoords ! i)"
              "coordAt arrCoords (i + 1) = Some (arrCoords ! (i + 1))"
        using lt True by (simp_all add: coordAt_def)
      show ?thesis
        unfolding polylineLoop_step [OF lt] ih d c pathCommands_Cons2 by simp
    next
      case False
      then have d: "drop i arrCoords = [arrCoords ! i]" and e: "drop (i + 2) arrCoords = []"
        using lt by (simp_all add: Cons_nth_drop_Suc [symmetric])
      have c: "coordAt arrCoords i = Some (arrCoords ! i)" "coordAt arrCoords (i + 1) = None"
        using lt False by (simp_all add: coordAt_def)
      show ?thesis
        unfolding polylineLoop_step [OF lt] ih d e c by simp
    qed
  qed
qed


lemma toRGBA_option: "(case a of Some x \<Rightarrow> f (Some x) | None \<Rightarrow> f None) = f a"
  by (cases a) auto

lemma canvas_draw_Context:
  "canvas_draw toRGBA Context2D (Some st) s = (Inr (), s @ drawCommands toRGBA st)"
  by (cases "fillColor st"; cases "lineColor st")
     (simp_all add: canvas_draw_def drawCommands_def seq_skip seq_skip_left seq_assoc
        seq_call_Context seq_assign_Context assign_def call_def skip_def toRGBA_option)

lemma canvas_draw_None: "canvas_draw toRGBA ctx None s = (Inl TypeError, s)"
  by (simp add: canvas_draw_def throw_def)

lemma canvas_polyline_Array:
  "canvas_polyline toRGBA (Array a) arrCoords style s = (Inl TypeError, s)"
  by (simp add: canvas_polyline_def seq_call_Array_BeginPath)

lemma canvas_polygon_throws:
  "canvas_polygon toRGBA ctx arrCoords style s = (Inl TypeError, s)"
  by (simp add: canvas_polygon_def seq_def canvas_polyline_Array)

lemma seq_polylineLoop_Context:
  "seq (polylineLoop Context2D a 0) m s = m (s @ pathCommands True a)"
  by (simp add: seq_def polylineLoop_Context)

lemma canvas_polyline_Context:
  "canvas_polyline toRGBA Context2D (Some a) style s =
     canvas_draw toRGBA Context2D style (s @ BeginPath # pathCommands True a)"
  by (simp add: canvas_polyline_def seq_call_Context seq_skip seq_polylineLoop_Context)


lemma seq_call_None:
  "fst (seq (call ctx c) m s) = Inl TypeError" if "\<And>s'. fst (m s') = Inl TypeError"
  using that seq_call_cases [of ctx c m s] by auto

lemma canvas_draw_None_fst: "fst (canvas_draw toRGBA ctx None s) = Inl TypeError"
  by (simp add: canvas_draw_None)

lemma canvas_circle_None: "fst (canvas_circle toRGBA ctx cx cy r None s) = Inl TypeError"
  by (simp add: canvas_circle_def seq_skip seq_call_None canvas_draw_None)

lemma canvas_ellipse_None:
  "fst (canvas_ellipse kappa toRGBA ctx cx cy rx ry None s) = Inl TypeError"
  by (simp add: canvas_ellipse_def Let_def seq_skip seq_call_None canvas_draw_None)

lemma canvas_rect_None: "fst (canvas_rect toRGBA ctx x y w h None s) = Inl TypeError"
  by (simp add: canvas_rect_def seq_skip seq_call_None canvas_draw_None)

lemma canvas_line_None: "fst (canvas_line toRGBA ctx x1 y1 x2 y2 None s) = Inl TypeError"
  by (simp add: canvas_line_def seq_skip seq_call_None canvas_draw_None)

lemma canvas_polyline_None: "fst (canvas_polyline toRGBA ctx arrCoords None s) = Inl TypeError"
proof (cases ctx)
  case Context2D
  then show ?thesis
    by (cases arrCoords)
       (simp_all add: canvas_polyline_def seq_call_Context seq_skip seq_throw
          seq_polylineLoop_Context canvas_draw_None)
next
  case Null
  then show ?thesis by (simp add: canvas_polyline_def seq_call_Null)
next
  case (Array a)
  then show ?thesis by (simp add: canvas_polyline_Array)
qed

lemma svg_draw_None: "svg_draw toRGBA toStr element None d = (Inl TypeError, d)"
  by (simp add: svg_draw_def throw_def)

lemma drawCommands_Stroke_iff:
  "Stroke \<in> set (drawCommands toRGBA st) \<longleftrightarrow> lineColor st \<noteq> None \<and> lineWidth st \<noteq> Some 0"
  by (cases "fillColor st"; cases "lineColor st") (simp_all add: drawCommands_def)

lemma drawCommands_stroke_settings:
  "lineColor st = Some c \<Longrightarrow> lineWidth st \<noteq> Some 0 \<Longrightarrow>
     drawCommands toRGBA st =
       (case fillColor st of Some f \<Rightarrow> [SetFillStyle (toRGBA f (fillOpacity st)), Fill] | None \<Rightarrow> [])
       @ [SetLineWidth (case lineWidth st of Some w \<Rightarrow> w | None \<Rightarrow> 1),
          SetLineJoin (case lineJoin st of Some j \<Rightarrow> j | None \<Rightarrow> ''round''),
          SetLineCap (case lineCap st of Some k \<Rightarrow> k | None \<Rightarrow> ''butt''),
          SetStrokeStyle (toRGBA c (lineOpacity st)),
          Stroke]"
  by (simp add: drawCommands_def)

lemma canvas_shapes_Context:
  "canvas_circle toRGBA Context2D cx cy r (Some st) s
     = (Inr (), s @ [BeginPath, Arc cx cy r] @ drawCommands toRGBA st)"
  "canvas_rect toRGBA Context2D x y w h (Some st) s
     = (Inr (), s @ [BeginPath, Rect x y w h] @ drawCommands toRGBA st)"
  "canvas_line toRGBA Context2D x1 y1 x2 y2 (Some st) s
     = (Inr (), s @ [BeginPath, MoveTo (Some x1) (Some y1), LineTo (Some x2) (Some y2)]
          @ drawCommands toRGBA st)"
  "canvas_polyline toRGBA Context2D (Some a) (Some st) s
     = (Inr (), s @ BeginPath # pathCommands True a @ drawCommands toRGBA st)"
  by (simp_all add: canvas_circle_def canvas_rect_def canvas_line_def canvas_polyline_Context
        seq_skip seq_call_Context canvas_draw_Context)

lemma canvas_ellipse_Context:
  "canvas_ellipse kappa toRGBA Context2D cx cy rx ry (Some st) s
     = (Inr (), s @ [BeginPath,
          MoveTo (Some (cx - rx)) (Some cy),
          BezierCurveTo (cx - rx) (cy - ry * kappa) (cx - rx * kappa) (cy - ry) cx (cy - ry),
          BezierCurveTo (cx + rx * kappa) (cy - ry) (cx + rx) (cy - ry * kappa) (cx + rx) cy,
          BezierCurveTo (cx + rx) (cy + ry * kappa) (cx + rx * kappa) (cy + ry) cx (cy + ry),
          BezierCurveTo (cx - rx * kappa) (cy + ry) (cx - rx) (cy + ry * kappa) (cx - rx) cy]
          @ drawCommands toRGBA st)"
  by (simp add: canvas_ellipse_def Let_def seq_skip seq_call_Context canvas_draw_Context)

subsection \<open>The Vector Backend on the document\<close>

lemma nth_setAttribute_other:
  "i \<noteq> element \<Longrightarrow> setAttribute element property v d ! i = d ! i"
  by (simp add: setAttribute_def)

lemma nth_attr_other: "i \<noteq> element \<Longrightarrow> attr element attrs d ! i = d ! i"
  unfolding attr_def
  by (induction attrs arbitrary: d) (auto simp: nth_setAttribute_other)

lemma map_childNodes_setAttribute:
  "map childNodes (setAttribute element property v d) = map childNodes d"
proof (cases "element < length d")
  case True
  then show ?thesis by (simp add: setAttribute_def map_update list_update_same_conv)
next
  case False
  then show ?thesis by (simp add: setAttribute_def list_update_beyond not_less)
qed

lemma map_tagName_setAttribute:
  "map tagName (setAttribute element property v d) = map tagName d"
proof (cases "element < length d")
  case True
  then show ?thesis by (simp add: setAttribute_def map_update list_update_same_conv)
next
  case False
  then show ?thesis by (simp add: setAttribute_def list_update_beyond not_less)
qed

lemma map_childNodes_attr: "map childNodes (attr element attrs d) = map childNodes d"
  unfolding attr_def
  by (induction attrs arbitrary: d) (auto simp: map_childNodes_setAttribute)

lemma map_tagName_attr: "map tagName (attr element attrs d) = map tagName d"
  unfolding attr_def
  by (induction attrs arbitrary: d) (auto simp: map_tagName_setAttribute)

lemma svg_draw_Some:
  "svg_draw toRGBA toStr element (Some st) d
     = (Inr (), attr element (styleAttributes toRGBA toStr st) d)"
  by (cases "fillColor st"; cases "lineColor st")
     (simp_all add: svg_draw_def styleAttributes_def Let_def)

lemma svg_draw_cases:
  "svg_draw toRGBA toStr element style d = (Inl TypeError, d)
   \<or> (\<exists>attrs. svg_draw toRGBA toStr element style d = (Inr (), attr element attrs d))"
  by (cases style) (auto simp: svg_draw_Some svg_draw_None)

lemma map_childNodes_svg_draw:
  "map childNodes (snd (svg_draw toRGBA toStr element style d)) = map childNodes d"
  using svg_draw_cases [of toRGBA toStr element style d]
  by (auto simp: map_childNodes_attr)

lemma map_tagName_svg_draw:
  "map tagName (snd (svg_draw toRGBA toStr element style d)) = map tagName d"
  using svg_draw_cases [of toRGBA toStr element style d]
  by (auto simp: map_tagName_attr)

lemma nth_svg_draw_other:
  "i \<noteq> element \<Longrightarrow> snd (svg_draw toRGBA toStr element style d) ! i = d ! i"
  using svg_draw_cases [of toRGBA toStr element style d]
  by (auto simp: nth_attr_other)

lemma svg_shapes_unfold:
  "svg_circle toRGBA toStr element cx cy r style d =
     svg_draw toRGBA toStr element style
       (attr element [(''cx'', toStr cx), (''cy'', toStr cy), (''r'', toStr r)] d)"
  "svg_ellipse toRGBA toStr element cx cy rx ry style d =
     svg_draw toRGBA toStr element style
       (attr element [(''cx'', toStr cx), (''cy'', toStr cy), (''rx'', toStr rx),
          (''ry'', toStr ry)] d)"
  "svg_rect toRGBA toStr element x y w h style d =
     svg_draw toRGBA toStr element style
       (attr element [(''x'', toStr x), (''y'', toStr y), (''width'', toStr w),
          (''height'', toStr h)] d)"
  "svg_line toRGBA toStr element x1 y1 x2 y2 style d =
     svg_draw toRGBA toStr element style
       (attr element [(''x1'', toStr x1), (''y1'', toStr y1), (''x2'', toStr x2),
          (''y2'', toStr y2)] d)"
  "svg_polyline toRGBA toStr element arrCoords style d =
     svg_draw toRGBA toStr element style
       (attr element [(''points'', getCoordsAsString toStr arrCoords)] d)"
  "svg_polygon toRGBA toStr element arrCoords style d =
     svg_draw toRGBA toStr element style
       (attr element [(''points'', getCoordsAsString toStr arrCoords)] d)"
  by (simp_all add: svg_circle_def svg_ellipse_def svg_rect_def svg_line_def svg_polyline_def
        svg_polygon_def seq_skip seq_svg_attr)

lemma dom_empty_eq:
  "element < length d \<Longrightarrow> dom_empty element d = d[element := (d ! element)\<lparr>childNodes := []\<rparr>]"
proof (induction "length (childNodes (d ! element))" arbitrary: d)
  case 0
  then have c: "childNodes (d ! element) = []" by simp
  have r: "(d ! element)\<lparr>childNodes := []\<rparr> = d ! element"
    using c by (cases "d ! element") simp
  have "dom_empty element d = d"
    using c by (subst dom_empty.simps) simp
  also have "d = d[element := (d ! element)\<lparr>childNodes := []\<rparr>]"
    unfolding r by simp
  finally show ?case .
next
  case (Suc n)
  then obtain c rest where cr: "childNodes (d ! element) = c # rest"
    by (cases "childNodes (d ! element)") auto
  let ?d' = "removeChild element c d"
  have d': "?d' = d[element := (d ! element)\<lparr>childNodes := rest\<rparr>]"
    by (simp add: removeChild_def cr)
  have "dom_empty element d = dom_empty element ?d'"
    using Suc.prems by (subst dom_empty.simps) (simp add: cr)
  also have "\<dots> = ?d'[element := (?d' ! element)\<lparr>childNodes := []\<rparr>]"
    using Suc.hyps Suc.prems by (intro Suc.hyps(1)) (simp_all add: d' cr)
  also have "\<dots> = d[element := (d ! element)\<lparr>childNodes := []\<rparr>]"
    using Suc.prems by (simp add: d')
  finally show ?case .
qed

lemma svg_empty_removes_children:
  assumes "element < length d"
  shows "fst (svg_empty element d) = Inr ()"
    and "length (snd (svg_empty element d)) = length d"
    and "childNodes (snd (svg_empty element d) ! element) = []"
    and "tagName (snd (svg_empty element d) ! element) = tagName (d ! element)"
    and "attributes (snd (svg_empty element d) ! element) = attributes (d ! element)"
    and "i \<noteq> element \<Longrightarrow> snd (svg_empty element d) ! i = d ! i"
  using assms by (simp_all add: svg_empty_def dom_empty_eq)

lemma svg_getContext_eq:
  "svg_getContext parentElement type d =
     (length d,
      (d @ [\<lparr>tagName = type, attributes = [], childNodes = []\<rparr>])
        [parentElement := ((d @ [\<lparr>tagName = type, attributes = [], childNodes = []\<rparr>]) ! parentElement)
           \<lparr>childNodes := childNodes ((d @ [\<lparr>tagName = type, attributes = [], childNodes = []\<rparr>]) ! parentElement) @ [length d]\<rparr>])"
  by (simp add: svg_getContext_def svg_createElement_def createSVGElement_def appendChild_def)

subsection \<open>Coordinate Lists of even and of odd length\<close>

lemma pairStrings_coords_snoc:
  "pairStrings toStr (coords ps @ [x]) = pairStrings toStr (coords ps) @ [toStr x @ '' undefined'']"
  by (induction ps rule: coords.induct) simp_all

lemma joinComma_snoc:
  "joinComma (xs @ [a]) = (if xs = [] then a else joinComma xs @ '','' @ a)"
  by (induction xs rule: joinComma.induct) simp_all

lemma getCoordsAsString_odd:
  "getCoordsAsString toStr (coords ps @ [x]) =
     (if ps = [] then [] else pointsString toStr ps @ '','') @ toStr x @ '' undefined''"
  by (simp add: getCoordsAsString_eq pairStrings_coords_snoc joinComma_snoc pairStrings_Nil_iff
        coords_Nil_iff joinComma_pairStrings_coords)

lemma pathCommands_coords_snoc:
  "pathCommands first (coords ps @ [x]) =
     pathCommands first (coords ps)
       @ [if first \<and> ps = [] then MoveTo (Some x) None else LineTo (Some x) None]"
  by (induction ps arbitrary: first rule: coords.induct) simp_all

lemma odd_length_coords:
  "odd (length xs) \<Longrightarrow> \<exists>ps x. xs = coords ps @ [x]"
proof (induction xs rule: induct_list012)
  case 1
  then show ?case by simp
next
  case (2 x)
  have "[x] = coords [] @ [x]" by simp
  then show ?case by blast
next
  case (3 x y zs)
  then obtain ps z where "zs = coords ps @ [z]" by auto
  then have "x # y # zs = coords ((x, y) # ps) @ [z]" by simp
  then show ?case by blast
qed

lemma even_length_coords:
  "even (length xs) \<Longrightarrow> \<exists>ps. xs = coords ps"
proof (induction xs rule: induct_list012)
  case 1
  have "[] = coords []" by simp
  then show ?case by blast
next
  case (2 x)
  then show ?case by simp
next
  case (3 x y zs)
  then obtain ps where "zs = coords ps" by auto
  then have "x # y # zs = coords ((x, y) # ps)" by simp
  then show ?case by blast
qed

subsection \<open>Outcomes of the operations\<close>






subsection \<open>Resolved colors\<close>

lemma fillStyles_append: "fillStyles (xs @ ys) = fillStyles xs @ fillStyles ys"
  by (induction xs rule: fillStyles.induct) simp_all

lemma strokeStyles_append: "strokeStyles (xs @ ys) = strokeStyles xs @ strokeStyles ys"
  by (induction xs rule: strokeStyles.induct) simp_all

lemma rgbaString_not_none: "rgbaString toStr c \<noteq> ''none''"
  by (simp add: rgbaString_def)

lemma colorUtil_toRGBA_Some:
  "colorUtil_toRGBA parse toStr c (Some a) =
     rgbaString toStr \<lparr>red = red (parse c), green = green (parse c), blue = blue (parse c),
       alpha = a\<rparr>"
  by (cases "parse c") (simp add: colorUtil_toRGBA_def)

lemma colorUtil_toRGBA_None:
  "colorUtil_toRGBA parse toStr c None = rgbaString toStr (parse c)"
  by (simp add: colorUtil_toRGBA_def)

lemma svg_draw_other_attribute:
  assumes "element < length d"
    and "k \<notin> {''fill'', ''stroke'', ''stroke-width'', ''stroke-linejoin'', ''stroke-linecap''}"
  shows "getAttribute (snd (svg_draw toRGBA toStr element style d)) element k
           = getAttribute d element k"
proof (cases style)
  case None
  then show ?thesis by (simp add: svg_draw_None)
next
  case (Some st)
  from assms show ?thesis
    unfolding Some svg_draw_Some snd_conv styleAttributes_def
    by (subst getAttribute_attr) simp_all
qed

lemma svg_draw_style_attributes:
  assumes "element < length d"
  shows "map (getAttribute (snd (svg_draw toRGBA toStr element (Some st) d)) element)
           [''fill'', ''stroke'', ''stroke-width'', ''stroke-linejoin'', ''stroke-linecap'']
         = map Some
            [
             (case fillColor st of None \<Rightarrow> ''none''
              | Some c \<Rightarrow>
                  if toRGBA c None \<noteq> ''none'' \<and> fillOpacity st \<noteq> None
                  then toRGBA (toRGBA c None) (fillOpacity st) else toRGBA c None),
             (case lineColor st of None \<Rightarrow> ''none''
              | Some c \<Rightarrow>
                  if toRGBA c None \<noteq> ''none'' \<and> lineOpacity st \<noteq> None
                  then toRGBA (toRGBA c None) (lineOpacity st) else toRGBA c None),
             toStr (case lineWidth st of Some w \<Rightarrow> w | None \<Rightarrow> 1),
             (case lineJoin st of Some j \<Rightarrow> j | None \<Rightarrow> ''round''),
             (case lineCap st of Some k \<Rightarrow> k | None \<Rightarrow> ''butt'')]"
  using assms
  unfolding svg_draw_Some snd_conv styleAttributes_def
  by (simp add: getAttribute_attr)

lemma svg_shape_style_attributes:
  assumes "element < length d"
  shows "\<forall>D \<in> set
            [snd (svg_circle toRGBA toStr element cx cy r (Some st) d),
             snd (svg_ellipse toRGBA toStr element cx cy rx ry (Some st) d),
             snd (svg_rect toRGBA toStr element x y w h (Some st) d),
             snd (svg_line toRGBA toStr element x1 y1 x2 y2 (Some st) d),
             snd (svg_polyline toRGBA toStr element arrCoords (Some st) d),
             snd (svg_polygon toRGBA toStr element arrCoords (Some st) d)].
           map (getAttribute D element)
             [''fill'', ''stroke'', ''stroke-width'', ''stroke-linejoin'', ''stroke-linecap'']
           = map Some
              [
             (case fillColor st of None \<Rightarrow> ''none''
              | Some c \<Rightarrow>
                  if toRGBA c None \<noteq> ''none'' \<and> fillOpacity st \<noteq> None
                  then toRGBA (toRGBA c None) (fillOpacity st) else toRGBA c None),
             (case lineColor st of None \<Rightarrow> ''none''
              | Some c \<Rightarrow>
                  if toRGBA c None \<noteq> ''none'' \<and> lineOpacity st \<noteq> None
                  then toRGBA (toRGBA c None) (lineOpacity st) else toRGBA c None),
             toStr (case lineWidth st of Some w \<Rightarrow> w | None \<Rightarrow> 1),
             (case lineJoin st of Some j \<Rightarrow> j | None \<Rightarrow> ''round''),
             (case lineCap st of Some k \<Rightarrow> k | None \<Rightarrow> ''butt'')]"
  using assms
  by (simp only: svg_shapes_unfold list.set ball_simps svg_draw_style_attributes length_attr
        simp_thms)

lemma svg_shape_geometry_attributes:
  assumes "element < length d"
  shows "map (getAttribute (snd (svg_circle toRGBA toStr element cx cy r style d)) element)
           [''cx'', ''cy'', ''r''] = map Some [toStr cx, toStr cy, toStr r]"
    and "map (getAttribute (snd (svg_ellipse toRGBA toStr element cx cy rx ry style d)) element)
           [''cx'', ''cy'', ''rx'', ''ry'']
           = map Some [toStr cx, toStr cy, toStr rx, toStr ry]"
    and "map (getAttribute (snd (svg_rect toRGBA toStr element x y w h style d)) element)
           [''x'', ''y'', ''width'', ''height'']
           = map Some [toStr x, toStr y, toStr w, toStr h]"
    and "map (getAttribute (snd (svg_line toRGBA toStr element x1 y1 x2 y2 style d)) element)
           [''x1'', ''y1'', ''x2'', ''y2'']
           = map Some [toStr x1, toStr y1, toStr x2, toStr y2]"
    and "map (getAttribute (snd (svg_polyline toRGBA toStr element arrCoords style d)) element)
           [''points''] = map Some [getCoordsAsString toStr arrCoords]"
    and "map (getAttribute (snd (svg_polygon toRGBA toStr element arrCoords style d)) element)
           [''points''] = map Some [getCoordsAsString toStr arrCoords]"
  using assms
  by (simp_all add: svg_shapes_unfold svg_draw_other_attribute length_attr getAttribute_attr)

lemma omitted_style_outcome:
  "fst (svg_circle toRGBA toStr element cx cy r None d) = Inl TypeError
   \<and> fst (svg_ellipse toRGBA toStr element cx cy rx ry None d) = Inl TypeError
   \<and> fst (svg_rect toRGBA toStr element x y w h None d) = Inl TypeError
   \<and> fst (svg_line toRGBA toStr element x1 y1 x2 y2 None d) = Inl TypeError
   \<and> fst (svg_polyline toRGBA toStr element arrCoords None d) = Inl TypeError
   \<and> fst (svg_polygon toRGBA toStr element arrCoords None d) = Inl TypeError
   \<and> fst (canvas_circle toRGBA' ctx cx' cy' r' None s) = Inl TypeError
   \<and> fst (canvas_ellipse kappa toRGBA' ctx cx' cy' rx' ry' None s) = Inl TypeError
   \<and> fst (canvas_rect toRGBA' ctx x' y' w' h' None s) = Inl TypeError
   \<and> fst (canvas_line toRGBA' ctx x1' y1' x2' y2' None s) = Inl TypeError
   \<and> fst (canvas_polyline toRGBA' ctx optCoords None s) = Inl TypeError
   \<and> fst (canvas_polygon toRGBA' ctx arrCoords' None s) = Inl TypeError"
  by (simp add: svg_circle_def svg_ellipse_def svg_rect_def svg_line_def svg_polyline_def
        svg_polygon_def seq_skip seq_svg_attr svg_draw_None canvas_circle_None
        canvas_ellipse_None canvas_rect_None canvas_line_None canvas_polyline_None
        canvas_polygon_throws)

lemma omitted_style_effects:
  "svg_circle toRGBA toStr element cx cy r None d
     = (Inl TypeError, attr element [(''cx'', toStr cx), (''cy'', toStr cy), (''r'', toStr r)] d)"
  "svg_polyline toRGBA toStr element arrCoords None d
     = (Inl TypeError, attr element [(''points'', getCoordsAsString toStr arrCoords)] d)"
  "canvas_circle toRGBA' Context2D cx' cy' r' None s
     = (Inl TypeError, s @ [BeginPath, Arc cx' cy' r'])"
  "canvas_rect toRGBA' Context2D x' y' w' h' None s
     = (Inl TypeError, s @ [BeginPath, Rect x' y' w' h'])"
  "canvas_line toRGBA' Context2D x1' y1' x2' y2' None s
     = (Inl TypeError, s @ [BeginPath, MoveTo (Some x1') (Some y1'), LineTo (Some x2') (Some y2')])"
  "canvas_polyline toRGBA' Context2D (Some a) None s
     = (Inl TypeError, s @ BeginPath # pathCommands True a)"
  "canvas_polygon toRGBA' ctx a None s = (Inl TypeError, s)"
  by (simp_all add: svg_shapes_unfold svg_draw_None canvas_circle_def canvas_rect_def
        canvas_line_def canvas_polyline_Context canvas_polygon_throws seq_skip seq_call_Context
        canvas_draw_None)

lemma canvas_fill_style:
  "fillColor st = Some c \<Longrightarrow>
     fillStyles (snd (canvas_draw toRGBA Context2D (Some st) s))
       = fillStyles s @ [toRGBA c (fillOpacity st)]"
  by (cases "lineColor st")
     (simp_all add: canvas_draw_Context drawCommands_def fillStyles_append)

lemma canvas_stroke_style:
  "lineColor st = Some c \<Longrightarrow>
     strokeStyles (snd (canvas_draw toRGBA Context2D (Some st) s))
       = strokeStyles s @ (if lineWidth st = Some 0 then [] else [toRGBA c (lineOpacity st)])"
  by (cases "fillColor st")
     (simp_all add: canvas_draw_Context drawCommands_def strokeStyles_append)

lemma svg_fill_attribute:
  "element < length d \<Longrightarrow> fillColor st = Some c \<Longrightarrow>
     getAttribute (snd (svg_draw toRGBA toStr element (Some st) d)) element ''fill''
       = Some (if toRGBA c None \<noteq> ''none'' \<and> fillOpacity st \<noteq> None
               then toRGBA (toRGBA c None) (fillOpacity st) else toRGBA c None)"
  by (simp add: svg_draw_Some getAttribute_attr styleAttributes_def)

lemma svg_stroke_attribute:
  "element < length d \<Longrightarrow> lineColor st = Some c \<Longrightarrow>
     getAttribute (snd (svg_draw toRGBA toStr element (Some st) d)) element ''stroke''
       = Some (if toRGBA c None \<noteq> ''none'' \<and> lineOpacity st \<noteq> None
               then toRGBA (toRGBA c None) (lineOpacity st) else toRGBA c None)"
  by (simp add: svg_draw_Some getAttribute_attr styleAttributes_def)

section \<open>The points attribute of the Vector Backend\<close>

text \<open>
  Claim C7. For every Coordinate List of even length \<open>[x1, y1, ..., xn, yn]\<close>, that is
  \<open>coords ps\<close> for the pairs \<open>ps\<close>, the operations \<open>polyline\<close> and \<open>polygon\<close> of the
  Vector Backend leave the attribute \<open>points\<close> of the element set to exactly the string
  \<open>x1 y1,x2 y2,...,xn yn\<close>, whatever the style; the empty list gives the empty string.
  Every list of even length is of this form (\<open>even_length_coords\<close>).
\<close>

theorem points_attribute_exact:
  assumes "element < length d"
  shows "getAttribute (snd (svg_polyline toRGBA toStr element (coords ps) style d))
           element ''points'' = Some (pointsString toStr ps)
       \<and> getAttribute (snd (svg_polygon toRGBA toStr element (coords ps) style d))
           element ''points'' = Some (pointsString toStr ps)
       \<and> getCoordsAsString toStr [] = []"
  using assms
  by (simp add: svg_polyline_points svg_polygon_points getCoordsAsString_eq
        joinComma_pairStrings_coords)

theorem points_attribute_exact_witness:
  "(1::nat) < length sampleDocument
   \<and> getAttribute (snd (svg_polyline sampleRGBA showInt 1 (coords [(0, 0), (10, 0), (10, 25)])
         (Some noStyle) sampleDocument)) 1 ''points'' = Some ''0 0,10 0,10 25''
   \<and> getAttribute (snd (svg_polygon sampleRGBA showInt 1 (coords [(0, 0), (10, 0), (10, 25)])
         None sampleDocument)) 1 ''points'' = Some ''0 0,10 0,10 25''"
proof -
  have h: "(1::nat) < length sampleDocument" by (simp add: sampleDocument_def)
  have s: "pointsString showInt [(0, 0), (10, 0), (10, 25)] = ''0 0,10 0,10 25''"
    by (simp add: showInt_def)
  show ?thesis
    using h s
      points_attribute_exact [OF h, of sampleRGBA showInt "[(0, 0), (10, 0), (10, 25)]" "Some noStyle"]
      points_attribute_exact [OF h, of sampleRGBA showInt "[(0, 0), (10, 0), (10, 25)]" None]
    by simp
qed

section \<open>Polygon and polyline of the Vector Backend\<close>

text \<open>
  Claim C10. For every element, Coordinate List and style, \<open>polygon\<close> of the Vector
  Backend has exactly the effects and the result of \<open>polyline\<close>: the same \<open>points\<close>
  attribute and the same style attributes, with no step that closes the path.
\<close>

theorem svg_polygon_same_as_polyline:
  "svg_polygon toRGBA toStr element arrCoords style d
     = svg_polyline toRGBA toStr element arrCoords style d"
  by (simp add: svg_polygon_def svg_polyline_def)

section \<open>The optional style argument\<close>

text \<open>
  Claim C9 says that every shape operation of either backend, called with the style
  argument omitted, raises a \<open>TypeError\<close> that comes from an unguarded property read on
  the style. For \<open>polygon\<close> of the Raster Backend the exception does not come from the
  style: the same call with a style object raises the same \<open>TypeError\<close>, in its inner call
  \<open>polyline(arrCoords)\<close>, where the array stands in the place of the context, before any
  command reaches the context and before \<open>draw\<close> is called.
\<close>

theorem canvas_polygon_throws_with_style:
  "canvas_polygon sampleRGBA Context2D [0, 0, 10, 0, 10, 10] None [] = (Inl TypeError, [])
   \<and> canvas_polygon sampleRGBA Context2D [0, 0, 10, 0, 10, 10] (Some noStyle) []
        = (Inl TypeError, [])
   \<and> canvas_polyline sampleRGBA (Array [0, 0, 10, 0, 10, 10]) None None []
        = (Inl TypeError, [])"
  by (simp add: canvas_polygon_throws canvas_polyline_Array)

text \<open>
  Claim C9 as amended. For every shape operation of either backend other than \<open>polygon\<close>
  of the Raster Backend, called on its element or on a 2D context with the style argument
  omitted, that is \<open>undefined\<close>: the geometry is written first (the geometry attributes,
  or the path commands), then \<open>draw\<close> reads \<open>style.fillColor\<close> without a guard and raises
  a \<open>TypeError\<close>, so that nothing is drawn with the documented defaults; the same call
  with a style object returns normally. The optional-style branch of these operations is not
  total.
\<close>

theorem omitted_style_throws_in_draw:
  "svg_circle toRGBA toStr element cx cy r None d
     = (Inl TypeError, attr element [(''cx'', toStr cx), (''cy'', toStr cy), (''r'', toStr r)] d)
   \<and> fst (svg_circle toRGBA toStr element cx cy r (Some st) d) = Inr ()
   \<and> svg_ellipse toRGBA toStr element cx cy rx ry None d
     = (Inl TypeError,
        attr element [(''cx'', toStr cx), (''cy'', toStr cy), (''rx'', toStr rx),
          (''ry'', toStr ry)] d)
   \<and> fst (svg_ellipse toRGBA toStr element cx cy rx ry (Some st) d) = Inr ()
   \<and> svg_rect toRGBA toStr element x y w h None d
     = (Inl TypeError,
        attr element [(''x'', toStr x), (''y'', toStr y), (''width'', toStr w),
          (''height'', toStr h)] d)
   \<and> fst (svg_rect toRGBA toStr element x y w h (Some st) d) = Inr ()
   \<and> svg_line toRGBA toStr element x1 y1 x2 y2 None d
     = (Inl TypeError,
        attr element [(''x1'', toStr x1), (''y1'', toStr y1), (''x2'', toStr x2),
          (''y2'', toStr y2)] d)
   \<and> fst (svg_line toRGBA toStr element x1 y1 x2 y2 (Some st) d) = Inr ()
   \<and> svg_polyline toRGBA toStr element arrCoords None d
     = (Inl TypeError, attr element [(''points'', getCoordsAsString toStr arrCoords)] d)
   \<and> fst (svg_polyline toRGBA toStr element arrCoords (Some st) d) = Inr ()
   \<and> svg_polygon toRGBA toStr element arrCoords None d
     = (Inl TypeError, attr element [(''points'', getCoordsAsString toStr arrCoords)] d)
   \<and> fst (svg_polygon toRGBA toStr element arrCoords (Some st) d) = Inr ()
   \<and> canvas_circle toRGBA' Context2D cx' cy' r' None s
     = (Inl TypeError, s @ [BeginPath, Arc cx' cy' r'])
   \<and> fst (canvas_circle toRGBA' Context2D cx' cy' r' (Some st') s) = Inr ()
   \<and> canvas_ellipse kappa toRGBA' Context2D cx' cy' rx' ry' None s
     = (Inl TypeError,
        s @ [BeginPath,
          MoveTo (Some (cx' - rx')) (Some cy'),
          BezierCurveTo (cx' - rx') (cy' - ry' * kappa) (cx' - rx' * kappa) (cy' - ry')
            cx' (cy' - ry'),
          BezierCurveTo (cx' + rx' * kappa) (cy' - ry') (cx' + rx') (cy' - ry' * kappa)
            (cx' + rx') cy',
          BezierCurveTo (cx' + rx') (cy' + ry' * kappa) (cx' + rx' * kappa) (cy' + ry')
            cx' (cy' + ry'),
          BezierCurveTo (cx' - rx' * kappa) (cy' + ry') (cx' - rx') (cy' + ry' * kappa)
            (cx' - rx') cy'])
   \<and> fst (canvas_ellipse kappa toRGBA' Context2D cx' cy' rx' ry' (Some st') s) = Inr ()
   \<and> canvas_rect toRGBA' Context2D x' y' w' h' None s
     = (Inl TypeError, s @ [BeginPath, Rect x' y' w' h'])
   \<and> fst (canvas_rect toRGBA' Context2D x' y' w' h' (Some st') s) = Inr ()
   \<and> canvas_line toRGBA' Context2D x1' y1' x2' y2' None s
     = (Inl TypeError,
        s @ [BeginPath, MoveTo (Some x1') (Some y1'), LineTo (Some x2') (Some y2')])
   \<and> fst (canvas_line toRGBA' Context2D x1' y1' x2' y2' (Some st') s) = Inr ()
   \<and> canvas_polyline toRGBA' Context2D (Some a) None s
     = (Inl TypeError, s @ BeginPath # pathCommands True a)
   \<and> fst (canvas_polyline toRGBA' Context2D (Some a) (Some st') s) = Inr ()"
proof (intro conjI)
  show "canvas_ellipse kappa toRGBA' Context2D cx' cy' rx' ry' None s
     = (Inl TypeError,
        s @ [BeginPath,
          MoveTo (Some (cx' - rx')) (Some cy'),
          BezierCurveTo (cx' - rx') (cy' - ry' * kappa) (cx' - rx' * kappa) (cy' - ry')
            cx' (cy' - ry'),
          BezierCurveTo (cx' + rx' * kappa) (cy' - ry') (cx' + rx') (cy' - ry' * kappa)
            (cx' + rx') cy',
          BezierCurveTo (cx' + rx') (cy' + ry' * kappa) (cx' + rx' * kappa) (cy' + ry')
            cx' (cy' + ry'),
          BezierCurveTo (cx' - rx' * kappa) (cy' + ry') (cx' - rx') (cy' + ry' * kappa)
            (cx' - rx') cy'])"
    by (simp add: canvas_ellipse_def Let_def seq_skip seq_call_Context canvas_draw_None)
  show "fst (canvas_ellipse kappa toRGBA' Context2D cx' cy' rx' ry' (Some st') s) = Inr ()"
    by (simp add: canvas_ellipse_Context)
qed (simp_all add: svg_shapes_unfold svg_draw_None svg_draw_Some canvas_circle_def
      canvas_rect_def canvas_line_def canvas_polyline_Context seq_skip seq_call_Context
      canvas_draw_None canvas_draw_Context)

section \<open>Polygon of the Raster Backend\<close>

text \<open>
  Claim C4 describes \<open>polygon(ctx, [0,0, 10,0, 10,10, 0,10], {fillColor:'blue'})\<close> on the
  Raster Backend as tracing the four points, closing the path and filling it. Evaluated on
  this input, the source does none of it: its first statement \<open>polyline(arrCoords)\<close>
  passes the array where the context is expected, so \<open>ctx.beginPath()\<close> in \<open>polyline\<close>
  raises a \<open>TypeError\<close>, and the context receives no command at all.
\<close>

theorem canvas_polygon_scenario_throws:
  "canvas_polygon toRGBA Context2D [0, 0, 10, 0, 10, 10, 0, 10]
     (Some (noStyle\<lparr>fillColor := Some ''blue''\<rparr>)) s = (Inl TypeError, s)"
  by (rule canvas_polygon_throws)

text \<open>
  Claim C6 says that every shape operation of the Raster Backend issues a stroke command
  exactly when \<open>lineColor\<close> is present and \<open>lineWidth\<close> is not zero. \<open>draw\<close> does so
  (\<open>drawCommands_Stroke_iff\<close>, \<open>drawCommands_stroke_settings\<close>), and so do circle,
  ellipse, rectangle, line and polyline (\<open>canvas_shapes_Context\<close>,
  \<open>canvas_ellipse_Context\<close>). \<open>polygon\<close> does not: with a line color and the line width
  2 it raises a \<open>TypeError\<close> before it reaches \<open>draw\<close>, and no stroke command is issued.
\<close>

theorem canvas_polygon_never_strokes:
  "canvas_polygon toRGBA Context2D [0, 0, 10, 0, 10, 10]
     (Some (noStyle\<lparr>lineColor := Some ''#000000'', lineWidth := Some 2\<rparr>)) []
     = (Inl TypeError, [])
   \<and> Stroke \<notin> set (snd (canvas_polygon toRGBA Context2D [0, 0, 10, 0, 10, 10]
         (Some (noStyle\<lparr>lineColor := Some ''#000000'', lineWidth := Some 2\<rparr>)) []))"
  by (simp add: canvas_polygon_throws)

section \<open>Clearing a surface of the Vector Backend\<close>

text \<open>
  Claim C3 says that \<open>clear\<close> of the Vector Backend removes all child nodes of the
  surface and leaves the surface itself in place. \<open>empty\<close> of the module svg does exactly
  that (\<open>svg_empty_removes_children\<close>), and \<open>clear\<close> of the module canvas calls its
  \<open>empty\<close>; but \<open>clear\<close> of the module svg, documented as clearing the element, has an
  empty body. Evaluated on a surface with one child, it returns with the child still there.
\<close>

theorem svg_clear_keeps_children:
  "svg_clear 0 sampleDocument = (Inr (), sampleDocument)
   \<and> childNodes (snd (svg_clear 0 sampleDocument) ! 0) = [1]"
  by (simp add: svg_clear_def skip_def sampleDocument_def)

section \<open>Nodes added by the Vector Backend\<close>

text \<open>
  Claim C5 says that every shape operation of the Vector Backend adds exactly one node as
  the last child of the surface. Evaluated on a surface with one child, \<open>circle\<close> adds
  no node: it writes the geometry and style attributes on the element it is given, here
  the surface itself, whose list of children stays as it was.
\<close>

theorem svg_circle_adds_no_node:
  "svg_circle sampleRGBA showInt 0 50 50 10 (Some noStyle) sampleDocument =
     (Inr (),
      [\<lparr>tagName = ''svg'',
        attributes = [(''cx'', ''50''), (''cy'', ''50''), (''r'', ''10''), (''fill'', ''none''),
          (''stroke'', ''none''), (''stroke-width'', ''1''), (''stroke-linejoin'', ''round''),
          (''stroke-linecap'', ''butt'')],
        childNodes = [1]\<rparr>,
       \<lparr>tagName = ''circle'', attributes = [], childNodes = []\<rparr>])
   \<and> length (snd (svg_circle sampleRGBA showInt 0 50 50 10 (Some noStyle) sampleDocument))
        \<noteq> length sampleDocument + 1"
  by (simp add: svg_shapes_unfold svg_draw_Some styleAttributes_def attr_def setAttribute_def
        sampleDocument_def noStyle_def showInt_def)

text \<open>
  Claim C5 as amended. The node is added by \<open>getContext\<close>: each call creates exactly one
  new element of the given type, without attributes and children, as the last child of
  the parent element, and leaves every other node and the parent's tag and attributes
  unchanged; a second call adds a second node after the first. A shape operation adds no
  node and changes no tag and no list of children, and leaves every node but the element
  it is given unchanged: on that element it sets the geometry attributes and, when a style
  object is passed, the five style attributes.
\<close>

theorem getContext_adds_node_shapes_add_none:
  assumes "parentElement < length d"
  shows "(fst (svg_getContext parentElement type d) = length d
   \<and> length (snd (svg_getContext parentElement type d)) = length d + 1
   \<and> snd (svg_getContext parentElement type d) ! length d
        = \<lparr>tagName = type, attributes = [], childNodes = []\<rparr>
   \<and> childNodes (snd (svg_getContext parentElement type d) ! parentElement)
        = childNodes (d ! parentElement) @ [length d]
   \<and> tagName (snd (svg_getContext parentElement type d) ! parentElement)
        = tagName (d ! parentElement)
   \<and> attributes (snd (svg_getContext parentElement type d) ! parentElement)
        = attributes (d ! parentElement)
   \<and> (\<forall>i < length d. i \<noteq> parentElement
         \<longrightarrow> snd (svg_getContext parentElement type d) ! i = d ! i)
   \<and> childNodes (snd (svg_getContext parentElement type'
         (snd (svg_getContext parentElement type d))) ! parentElement)
        = childNodes (d ! parentElement) @ [length d, length d + 1]
   \<and> map childNodes (snd (svg_circle toRGBA toStr element cx cy r style d)) = map childNodes d
   \<and> map tagName (snd (svg_circle toRGBA toStr element cx cy r style d)) = map tagName d
   \<and> (\<forall>i. i \<noteq> element
         \<longrightarrow> snd (svg_circle toRGBA toStr element cx cy r style d) ! i = d ! i)
   \<and> map childNodes (snd (svg_ellipse toRGBA toStr element cx cy rx ry style d)) = map childNodes d
   \<and> map tagName (snd (svg_ellipse toRGBA toStr element cx cy rx ry style d)) = map tagName d
   \<and> (\<forall>i. i \<noteq> element
         \<longrightarrow> snd (svg_ellipse toRGBA toStr element cx cy rx ry style d) ! i = d ! i)
   \<and> map childNodes (snd (svg_rect toRGBA toStr element x y w h style d)) = map childNodes d
   \<and> map tagName (snd (svg_rect toRGBA toStr element x y w h style d)) = map tagName d
   \<and> (\<forall>i. i \<noteq> element
         \<longrightarrow> snd (svg_rect toRGBA toStr element x y w h style d) ! i = d ! i)
   \<and> map childNodes (snd (svg_line toRGBA toStr element x1 y1 x2 y2 style d)) = map childNodes d
   \<and> map tagName (snd (svg_line toRGBA toStr element x1 y1 x2 y2 style d)) = map tagName d
   \<and> (\<forall>i. i \<noteq> element
         \<longrightarrow> snd (svg_line toRGBA toStr element x1 y1 x2 y2 style d) ! i = d ! i)
   \<and> map childNodes (snd (svg_polyline toRGBA toStr element arrCoords style d)) = map childNodes d
   \<and> map tagName (snd (svg_polyline toRGBA toStr element arrCoords style d)) = map tagName d
   \<and> (\<forall>i. i \<noteq> element
         \<longrightarrow> snd (svg_polyline toRGBA toStr element arrCoords style d) ! i = d ! i)
   \<and> map childNodes (snd (svg_polygon toRGBA toStr element arrCoords style d)) = map childNodes d
   \<and> map tagName (snd (svg_polygon toRGBA toStr element arrCoords style d)) = map tagName d
   \<and> (\<forall>i. i \<noteq> element
         \<longrightarrow> snd (svg_polygon toRGBA toStr element arrCoords style d) ! i = d ! i))
   \<and> (element < length d \<longrightarrow>
         map (getAttribute (snd (svg_circle toRGBA toStr element cx cy r style d)) element)
           [''cx'', ''cy'', ''r''] = map Some [toStr cx, toStr cy, toStr r]
       \<and> map (getAttribute (snd (svg_ellipse toRGBA toStr element cx cy rx ry style d)) element)
           [''cx'', ''cy'', ''rx'', ''ry''] = map Some [toStr cx, toStr cy, toStr rx, toStr ry]
       \<and> map (getAttribute (snd (svg_rect toRGBA toStr element x y w h style d)) element)
           [''x'', ''y'', ''width'', ''height''] = map Some [toStr x, toStr y, toStr w, toStr h]
       \<and> map (getAttribute (snd (svg_line toRGBA toStr element x1 y1 x2 y2 style d)) element)
           [''x1'', ''y1'', ''x2'', ''y2''] = map Some [toStr x1, toStr y1, toStr x2, toStr y2]
       \<and> map (getAttribute (snd (svg_polyline toRGBA toStr element arrCoords style d)) element)
           [''points''] = map Some [getCoordsAsString toStr arrCoords]
       \<and> map (getAttribute (snd (svg_polygon toRGBA toStr element arrCoords style d)) element)
           [''points''] = map Some [getCoordsAsString toStr arrCoords]
       \<and> (\<forall>D \<in> set
              [snd (svg_circle toRGBA toStr element cx cy r (Some st) d),
               snd (svg_ellipse toRGBA toStr element cx cy rx ry (Some st) d),
               snd (svg_rect toRGBA toStr element x y w h (Some st) d),
               snd (svg_line toRGBA toStr element x1 y1 x2 y2 (Some st) d),
               snd (svg_polyline toRGBA toStr element arrCoords (Some st) d),
               snd (svg_polygon toRGBA toStr element arrCoords (Some st) d)].
             map (getAttribute D element)
               [''fill'', ''stroke'', ''stroke-width'', ''stroke-linejoin'', ''stroke-linecap'']
             = map Some
                [
                 (case fillColor st of None \<Rightarrow> ''none''
                  | Some c \<Rightarrow>
                      if toRGBA c None \<noteq> ''none'' \<and> fillOpacity st \<noteq> None
                      then toRGBA (toRGBA c None) (fillOpacity st) else toRGBA c None),
                 (case lineColor st of None \<Rightarrow> ''none''
                  | Some c \<Rightarrow>
                      if toRGBA c None \<noteq> ''none'' \<and> lineOpacity st \<noteq> None
                      then toRGBA (toRGBA c None) (lineOpacity st) else toRGBA c None),
                 toStr (case lineWidth st of Some w \<Rightarrow> w | None \<Rightarrow> 1),
                 (case lineJoin st of Some j \<Rightarrow> j | None \<Rightarrow> ''round''),
                 (case lineCap st of Some k \<Rightarrow> k | None \<Rightarrow> ''butt'')]))"
proof -
  have attrs: "element < length d \<longrightarrow>
         map (getAttribute (snd (svg_circle toRGBA toStr element cx cy r style d)) element)
           [''cx'', ''cy'', ''r''] = map Some [toStr cx, toStr cy, toStr r]
       \<and> map (getAttribute (snd (svg_ellipse toRGBA toStr element cx cy rx ry style d)) element)
           [''cx'', ''cy'', ''rx'', ''ry''] = map Some [toStr cx, toStr cy, toStr rx, toStr ry]
       \<and> map (getAttribute (snd (svg_rect toRGBA toStr element x y w h style d)) element)
           [''x'', ''y'', ''width'', ''height''] = map Some [toStr x, toStr y, toStr w, toStr h]
       \<and> map (getAttribute (snd (svg_line toRGBA toStr element x1 y1 x2 y2 style d)) element)
           [''x1'', ''y1'', ''x2'', ''y2''] = map Some [toStr x1, toStr y1, toStr x2, toStr y2]
       \<and> map (getAttribute (snd (svg_polyline toRGBA toStr element arrCoords style d)) element)
           [''points''] = map Some [getCoordsAsString toStr arrCoords]
       \<and> map (getAttribute (snd (svg_polygon toRGBA toStr element arrCoords style d)) element)
           [''points''] = map Some [getCoordsAsString toStr arrCoords]
       \<and> (\<forall>D \<in> set
              [snd (svg_circle toRGBA toStr element cx cy r (Some st) d),
               snd (svg_ellipse toRGBA toStr element cx cy rx ry (Some st) d),
               snd (svg_rect toRGBA toStr element x y w h (Some st) d),
               snd (svg_line toRGBA toStr element x1 y1 x2 y2 (Some st) d),
               snd (svg_polyline toRGBA toStr element arrCoords (Some st) d),
               snd (svg_polygon toRGBA toStr element arrCoords (Some st) d)].
             map (getAttribute D element)
               [''fill'', ''stroke'', ''stroke-width'', ''stroke-linejoin'', ''stroke-linecap'']
             = map Some
                [
                 (case fillColor st of None \<Rightarrow> ''none''
                  | Some c \<Rightarrow>
                      if toRGBA c None \<noteq> ''none'' \<and> fillOpacity st \<noteq> None
                      then toRGBA (toRGBA c None) (fillOpacity st) else toRGBA c None),
                 (case lineColor st of None \<Rightarrow> ''none''
                  | Some c \<Rightarrow>
                      if toRGBA c None \<noteq> ''none'' \<and> lineOpacity st \<noteq> None
                      then toRGBA (toRGBA c None) (lineOpacity st) else toRGBA c None),
                 toStr (case lineWidth st of Some w \<Rightarrow> w | None \<Rightarrow> 1),
                 (case lineJoin st of Some j \<Rightarrow> j | None \<Rightarrow> ''round''),
                 (case lineCap st of Some k \<Rightarrow> k | None \<Rightarrow> ''butt'')])"
  proof
    assume e: "element < length d"
    show "map (getAttribute (snd (svg_circle toRGBA toStr element cx cy r style d)) element)
           [''cx'', ''cy'', ''r''] = map Some [toStr cx, toStr cy, toStr r]
       \<and> map (getAttribute (snd (svg_ellipse toRGBA toStr element cx cy rx ry style d)) element)
           [''cx'', ''cy'', ''rx'', ''ry''] = map Some [toStr cx, toStr cy, toStr rx, toStr ry]
       \<and> map (getAttribute (snd (svg_rect toRGBA toStr element x y w h style d)) element)
           [''x'', ''y'', ''width'', ''height''] = map Some [toStr x, toStr y, toStr w, toStr h]
       \<and> map (getAttribute (snd (svg_line toRGBA toStr element x1 y1 x2 y2 style d)) element)
           [''x1'', ''y1'', ''x2'', ''y2''] = map Some [toStr x1, toStr y1, toStr x2, toStr y2]
       \<and> map (getAttribute (snd (svg_polyline toRGBA toStr element arrCoords style d)) element)
           [''points''] = map Some [getCoordsAsString toStr arrCoords]
       \<and> map (getAttribute (snd (svg_polygon toRGBA toStr element arrCoords style d)) element)
           [''points''] = map Some [getCoordsAsString toStr arrCoords]
       \<and> (\<forall>D \<in> set
              [snd (svg_circle toRGBA toStr element cx cy r (Some st) d),
               snd (svg_ellipse toRGBA toStr element cx cy rx ry (Some st) d),
               snd (svg_rect toRGBA toStr element x y w h (Some st) d),
               snd (svg_line toRGBA toStr element x1 y1 x2 y2 (Some st) d),
               snd (svg_polyline toRGBA toStr element arrCoords (Some st) d),
               snd (svg_polygon toRGBA toStr element arrCoords (Some st) d)].
             map (getAttribute D element)
               [''fill'', ''stroke'', ''stroke-width'', ''stroke-linejoin'', ''stroke-linecap'']
             = map Some
                [
                 (case fillColor st of None \<Rightarrow> ''none''
                  | Some c \<Rightarrow>
                      if toRGBA c None \<noteq> ''none'' \<and> fillOpacity st \<noteq> None
                      then toRGBA (toRGBA c None) (fillOpacity st) else toRGBA c None),
                 (case lineColor st of None \<Rightarrow> ''none''
                  | Some c \<Rightarrow>
                      if toRGBA c None \<noteq> ''none'' \<and> lineOpacity st \<noteq> None
                      then toRGBA (toRGBA c None) (lineOpacity st) else toRGBA c None),
                 toStr (case lineWidth st of Some w \<Rightarrow> w | None \<Rightarrow> 1),
                 (case lineJoin st of Some j \<Rightarrow> j | None \<Rightarrow> ''round''),
                 (case lineCap st of Some k \<Rightarrow> k | None \<Rightarrow> ''butt'')])"
      by (intro conjI svg_shape_geometry_attributes [OF e] svg_shape_style_attributes [OF e])
  qed
  have frame: "fst (svg_getContext parentElement type d) = length d
   \<and> length (snd (svg_getContext parentElement type d)) = length d + 1
   \<and> snd (svg_getContext parentElement type d) ! length d
        = \<lparr>tagName = type, attributes = [], childNodes = []\<rparr>
   \<and> childNodes (snd (svg_getContext parentElement type d) ! parentElement)
        = childNodes (d ! parentElement) @ [length d]
   \<and> tagName (snd (svg_getContext parentElement type d) ! parentElement)
        = tagName (d ! parentElement)
   \<and> attributes (snd (svg_getContext parentElement type d) ! parentElement)
        = attributes (d ! parentElement)
   \<and> (\<forall>i < length d. i \<noteq> parentElement
         \<longrightarrow> snd (svg_getContext parentElement type d) ! i = d ! i)
   \<and> childNodes (snd (svg_getContext parentElement type'
         (snd (svg_getContext parentElement type d))) ! parentElement)
        = childNodes (d ! parentElement) @ [length d, length d + 1]
   \<and> map childNodes (snd (svg_circle toRGBA toStr element cx cy r style d)) = map childNodes d
   \<and> map tagName (snd (svg_circle toRGBA toStr element cx cy r style d)) = map tagName d
   \<and> (\<forall>i. i \<noteq> element
         \<longrightarrow> snd (svg_circle toRGBA toStr element cx cy r style d) ! i = d ! i)
   \<and> map childNodes (snd (svg_ellipse toRGBA toStr element cx cy rx ry style d)) = map childNodes d
   \<and> map tagName (snd (svg_ellipse toRGBA toStr element cx cy rx ry style d)) = map tagName d
   \<and> (\<forall>i. i \<noteq> element
         \<longrightarrow> snd (svg_ellipse toRGBA toStr element cx cy rx ry style d) ! i = d ! i)
   \<and> map childNodes (snd (svg_rect toRGBA toStr element x y w h style d)) = map childNodes d
   \<and> map tagName (snd (svg_rect toRGBA toStr element x y w h style d)) = map tagName d
   \<and> (\<forall>i. i \<noteq> element
         \<longrightarrow> snd (svg_rect toRGBA toStr element x y w h style d) ! i = d ! i)
   \<and> map childNodes (snd (svg_line toRGBA toStr element x1 y1 x2 y2 style d)) = map childNodes d
   \<and> map tagName (snd (svg_line toRGBA toStr element x1 y1 x2 y2 style d)) = map tagName d
   \<and> (\<forall>i. i \<noteq> element
         \<longrightarrow> snd (svg_line toRGBA toStr element x1 y1 x2 y2 style d) ! i = d ! i)
   \<and> map childNodes (snd (svg_polyline toRGBA toStr element arrCoords style d)) = map childNodes d
   \<and> map tagName (snd (svg_polyline toRGBA toStr element arrCoords style d)) = map tagName d
   \<and> (\<forall>i. i \<noteq> element
         \<longrightarrow> snd (svg_polyline toRGBA toStr element arrCoords style d) ! i = d ! i)
   \<and> map childNodes (snd (svg_polygon toRGBA toStr element arrCoords style d)) = map childNodes d
   \<and> map tagName (snd (svg_polygon toRGBA toStr element arrCoords style d)) = map tagName d
   \<and> (\<forall>i. i \<noteq> element
         \<longrightarrow> snd (svg_polygon toRGBA toStr element arrCoords style d) ! i = d ! i)"
    using assms
    by (simp add: svg_getContext_eq nth_append svg_shapes_unfold map_childNodes_svg_draw
          map_tagName_svg_draw map_childNodes_attr map_tagName_attr nth_svg_draw_other
          nth_attr_other)
  from frame attrs show ?thesis by (rule conjI)
qed

theorem getContext_adds_node_shapes_add_none_witness:
  "(0::nat) < length sampleDocument
   \<and> fst (svg_getContext 0 ''rect'' sampleDocument) = 2
   \<and> length (snd (svg_getContext 0 ''rect'' sampleDocument)) = 3
   \<and> childNodes (snd (svg_getContext 0 ''rect'' sampleDocument) ! 0) = [1, 2]
   \<and> snd (svg_getContext 0 ''rect'' sampleDocument) ! 1 = sampleDocument ! 1
   \<and> map childNodes (snd (svg_circle sampleRGBA showInt 0 50 50 10 (Some noStyle)
         sampleDocument)) = [[1], []]
   \<and> snd (svg_circle sampleRGBA showInt 0 50 50 10 (Some noStyle) sampleDocument) ! 1
        = sampleDocument ! 1
   \<and> map (getAttribute (snd (svg_circle sampleRGBA showInt 0 50 50 10 (Some noStyle)
         sampleDocument)) 0) [''cx'', ''cy'', ''r'']
        = [Some ''50'', Some ''50'', Some ''10'']
   \<and> map (getAttribute (snd (svg_circle sampleRGBA showInt 0 50 50 10 (Some noStyle)
         sampleDocument)) 0)
        [''fill'', ''stroke'', ''stroke-width'', ''stroke-linejoin'', ''stroke-linecap'']
        = [Some ''none'', Some ''none'', Some ''1'', Some ''round'', Some ''butt'']"
proof -
  have h: "(0::nat) < length sampleDocument" by (simp add: sampleDocument_def)
  show ?thesis
    using h getContext_adds_node_shapes_add_none [OF h, of "''rect''" "''rect''" sampleRGBA
        showInt 0 50 50 10 "Some noStyle" _ _ _ _ _ _ _ _ _ _ _ noStyle]
    by (simp add: sampleDocument_def showInt_def noStyle_def)
qed

section \<open>Coordinate Lists of odd length\<close>

text \<open>
  Claim C2 says that \<open>polyline\<close> and \<open>polygon\<close> of both backends fail with an
  \<open>InvalidArgument\<close> error on a Coordinate List of odd length before any path is built
  or any attribute written. Evaluated on the list \<open>[1, 2, 3]\<close> with the style \<open>{}\<close>,
  \<open>polyline\<close> of the Vector Backend returns normally with the \<open>points\<close> attribute and
  the style attributes written, and \<open>polyline\<close> of the Raster Backend returns normally
  after building the path.
\<close>

theorem odd_coordinates_fail_refuted:
  "svg_polyline sampleRGBA showInt 1 [1, 2, 3] (Some noStyle) sampleDocument =
     (Inr (),
      [\<lparr>tagName = ''svg'', attributes = [], childNodes = [1]\<rparr>,
       \<lparr>tagName = ''circle'',
        attributes = [(''points'', ''1 2,3 undefined''), (''fill'', ''none''),
          (''stroke'', ''none''), (''stroke-width'', ''1''), (''stroke-linejoin'', ''round''),
          (''stroke-linecap'', ''butt'')],
        childNodes = []\<rparr>])
   \<and> canvas_polyline sampleRGBA Context2D (Some [1, 2, 3]) (Some noStyle) [] =
     (Inr (), [BeginPath, MoveTo (Some 1) (Some 2), LineTo (Some 3) None])"
  by (simp add: svg_shapes_unfold svg_draw_Some styleAttributes_def attr_def setAttribute_def
        sampleDocument_def noStyle_def showInt_def getCoordsAsString_eq canvas_shapes_Context
        drawCommands_def)

text \<open>
  Claim C2 as amended. No length check exists: for every Coordinate List of odd length,
  that is \<open>coords ps @ [x]\<close> (\<open>odd_length_coords\<close>), \<open>polyline\<close> and \<open>polygon\<close> of the
  Vector Backend and \<open>polyline\<close> of the Raster Backend, called with a style object,
  return normally. The missing last coordinate is read as \<open>undefined\<close>: the Vector Backend
  writes the \<open>points\<close> attribute with the last pair \<open>x undefined\<close> and then the five
  style attributes, and the Raster Backend builds the whole path, the last command with an
  undefined \<open>y\<close>, and then issues the fill and stroke commands of the style.
\<close>

theorem odd_coordinates_are_drawn:
  assumes "element < length d"
  shows "fst (svg_polyline toRGBA toStr element (coords ps @ [x]) (Some st) d) = Inr ()
   \<and> getAttribute (snd (svg_polyline toRGBA toStr element (coords ps @ [x]) (Some st) d))
        element ''points''
        = Some ((if ps = [] then [] else pointsString toStr ps @ '','')
                  @ toStr x @ '' undefined'')
   \<and> fst (svg_polygon toRGBA toStr element (coords ps @ [x]) (Some st) d) = Inr ()
   \<and> getAttribute (snd (svg_polygon toRGBA toStr element (coords ps @ [x]) (Some st) d))
        element ''points''
        = Some ((if ps = [] then [] else pointsString toStr ps @ '','')
                  @ toStr x @ '' undefined'')
   \<and> canvas_polyline toRGBA' Context2D (Some (coords ps @ [x])) (Some st') s
        = (Inr (),
           s @ BeginPath # pathCommands True (coords ps)
             @ [if ps = [] then MoveTo (Some x) None else LineTo (Some x) None]
             @ drawCommands toRGBA' st')
   \<and> (\<forall>D \<in> set
          [snd (svg_polyline toRGBA toStr element (coords ps @ [x]) (Some st) d),
           snd (svg_polygon toRGBA toStr element (coords ps @ [x]) (Some st) d)].
         map (getAttribute D element)
           [''fill'', ''stroke'', ''stroke-width'', ''stroke-linejoin'', ''stroke-linecap'']
         = map Some
            [
             (case fillColor st of None \<Rightarrow> ''none''
              | Some c \<Rightarrow>
                  if toRGBA c None \<noteq> ''none'' \<and> fillOpacity st \<noteq> None
                  then toRGBA (toRGBA c None) (fillOpacity st) else toRGBA c None),
             (case lineColor st of None \<Rightarrow> ''none''
              | Some c \<Rightarrow>
                  if toRGBA c None \<noteq> ''none'' \<and> lineOpacity st \<noteq> None
                  then toRGBA (toRGBA c None) (lineOpacity st) else toRGBA c None),
             toStr (case lineWidth st of Some w \<Rightarrow> w | None \<Rightarrow> 1),
             (case lineJoin st of Some j \<Rightarrow> j | None \<Rightarrow> ''round''),
             (case lineCap st of Some k \<Rightarrow> k | None \<Rightarrow> ''butt'')])"
proof (intro conjI)
  show "\<forall>D \<in> set
          [snd (svg_polyline toRGBA toStr element (coords ps @ [x]) (Some st) d),
           snd (svg_polygon toRGBA toStr element (coords ps @ [x]) (Some st) d)].
         map (getAttribute D element)
           [''fill'', ''stroke'', ''stroke-width'', ''stroke-linejoin'', ''stroke-linecap'']
         = map Some
            [
             (case fillColor st of None \<Rightarrow> ''none''
              | Some c \<Rightarrow>
                  if toRGBA c None \<noteq> ''none'' \<and> fillOpacity st \<noteq> None
                  then toRGBA (toRGBA c None) (fillOpacity st) else toRGBA c None),
             (case lineColor st of None \<Rightarrow> ''none''
              | Some c \<Rightarrow>
                  if toRGBA c None \<noteq> ''none'' \<and> lineOpacity st \<noteq> None
                  then toRGBA (toRGBA c None) (lineOpacity st) else toRGBA c None),
             toStr (case lineWidth st of Some w \<Rightarrow> w | None \<Rightarrow> 1),
             (case lineJoin st of Some j \<Rightarrow> j | None \<Rightarrow> ''round''),
             (case lineCap st of Some k \<Rightarrow> k | None \<Rightarrow> ''butt'')]"
    using assms
    by (simp only: svg_shapes_unfold list.set ball_simps svg_draw_style_attributes length_attr
          simp_thms)
  show "fst (svg_polyline toRGBA toStr element (coords ps @ [x]) (Some st) d) = Inr ()"
    by (simp add: svg_shapes_unfold svg_draw_Some)
  show "fst (svg_polygon toRGBA toStr element (coords ps @ [x]) (Some st) d) = Inr ()"
    by (simp add: svg_shapes_unfold svg_draw_Some)
  show "getAttribute (snd (svg_polyline toRGBA toStr element (coords ps @ [x]) (Some st) d))
          element ''points''
        = Some ((if ps = [] then [] else pointsString toStr ps @ '','')
                  @ toStr x @ '' undefined'')"
    using assms by (simp only: svg_polyline_points getCoordsAsString_odd)
  show "getAttribute (snd (svg_polygon toRGBA toStr element (coords ps @ [x]) (Some st) d))
          element ''points''
        = Some ((if ps = [] then [] else pointsString toStr ps @ '','')
                  @ toStr x @ '' undefined'')"
    using assms by (simp only: svg_polygon_points getCoordsAsString_odd)
  show "canvas_polyline toRGBA' Context2D (Some (coords ps @ [x])) (Some st') s
        = (Inr (),
           s @ BeginPath # pathCommands True (coords ps)
             @ [if ps = [] then MoveTo (Some x) None else LineTo (Some x) None]
             @ drawCommands toRGBA' st')"
    by (simp add: canvas_shapes_Context pathCommands_coords_snoc)
qed

theorem odd_coordinates_are_drawn_witness:
  "(1::nat) < length sampleDocument
   \<and> fst (svg_polyline sampleRGBA showInt 1 (coords [(1, 2)] @ [3]) (Some noStyle)
        sampleDocument) = Inr ()
   \<and> getAttribute (snd (svg_polyline sampleRGBA showInt 1 (coords [(1, 2)] @ [3])
        (Some noStyle) sampleDocument)) 1 ''points'' = Some ''1 2,3 undefined''
   \<and> canvas_polyline sampleRGBA Context2D (Some (coords [(1, 2)] @ [3])) (Some noStyle) []
        = (Inr (), [BeginPath, MoveTo (Some 1) (Some 2), LineTo (Some 3) None])
   \<and> map (getAttribute (snd (svg_polyline sampleRGBA showInt 1 (coords [(1, 2)] @ [3])
          (Some noStyle) sampleDocument)) 1)
        [''fill'', ''stroke'', ''stroke-width'', ''stroke-linejoin'', ''stroke-linecap'']
        = [Some ''none'', Some ''none'', Some ''1'', Some ''round'', Some ''butt'']"
proof -
  have h: "(1::nat) < length sampleDocument" by (simp add: sampleDocument_def)
  show ?thesis
    using h odd_coordinates_are_drawn [OF h, of sampleRGBA showInt "[(1, 2)]" 3 noStyle
        sampleRGBA noStyle "[]"]
    by (simp add: showInt_def drawCommands_def noStyle_def)
qed

section \<open>Capability probes and the draw operations\<close>



section \<open>Explicit opacity and the alpha of the color\<close>

text \<open>
  Claim C1. For every style with both \<open>fillColor\<close> and \<open>fillOpacity\<close> set, the fill
  color used by either backend (the value assigned to \<open>fillStyle\<close> by the Raster
  Backend, the \<open>fill\<close> attribute written by the Vector Backend) is obtained by passing
  the explicit opacity through the Color Resolver, so that its alpha channel is the
  explicit opacity, whatever alpha the color string carries; and likewise for
  \<open>lineColor\<close> and \<open>lineOpacity\<close> with \<open>strokeStyle\<close> and the \<open>stroke\<close> attribute
  (the Raster Backend assigns no \<open>strokeStyle\<close> when the line width is zero). The
  resolver is the one modelled from the specification; what the code itself does for an
  arbitrary resolver is in \<open>canvas_fill_style\<close>, \<open>canvas_stroke_style\<close>,
  \<open>svg_fill_attribute\<close> and \<open>svg_stroke_attribute\<close>.
\<close>

theorem explicit_opacity_overrides_alpha:
  assumes "element < length d"
  shows
   "(fillColor st = Some c \<and> fillOpacity st = Some a \<longrightarrow>
       fillStyles (snd (canvas_draw (colorUtil_toRGBA parse toStr) Context2D (Some st) s))
         = fillStyles s
           @ [rgbaString toStr \<lparr>red = red (parse c), green = green (parse c),
                blue = blue (parse c), alpha = a\<rparr>]
     \<and> getAttribute (snd (svg_draw (colorUtil_toRGBA parse toStr) toStr element (Some st) d))
         element ''fill''
         = Some (rgbaString toStr
             \<lparr>red = red (parse (rgbaString toStr (parse c))),
              green = green (parse (rgbaString toStr (parse c))),
              blue = blue (parse (rgbaString toStr (parse c))), alpha = a\<rparr>))
    \<and> (lineColor st = Some c' \<and> lineOpacity st = Some a' \<longrightarrow>
       strokeStyles (snd (canvas_draw (colorUtil_toRGBA parse toStr) Context2D (Some st) s))
         = strokeStyles s
           @ (if lineWidth st = Some 0 then []
              else [rgbaString toStr \<lparr>red = red (parse c'), green = green (parse c'),
                      blue = blue (parse c'), alpha = a'\<rparr>])
     \<and> getAttribute (snd (svg_draw (colorUtil_toRGBA parse toStr) toStr element (Some st) d))
         element ''stroke''
         = Some (rgbaString toStr
             \<lparr>red = red (parse (rgbaString toStr (parse c'))),
              green = green (parse (rgbaString toStr (parse c'))),
              blue = blue (parse (rgbaString toStr (parse c'))), alpha = a'\<rparr>))"
proof (intro conjI impI)
  assume f: "fillColor st = Some c \<and> fillOpacity st = Some a"
  show "fillStyles (snd (canvas_draw (colorUtil_toRGBA parse toStr) Context2D (Some st) s))
         = fillStyles s
           @ [rgbaString toStr \<lparr>red = red (parse c), green = green (parse c),
                blue = blue (parse c), alpha = a\<rparr>]"
    using f
    by (cases "lineColor st")
       (simp_all add: canvas_draw_Context drawCommands_def fillStyles_append
          colorUtil_toRGBA_Some)
  show "getAttribute (snd (svg_draw (colorUtil_toRGBA parse toStr) toStr element (Some st) d))
         element ''fill''
         = Some (rgbaString toStr
             \<lparr>red = red (parse (rgbaString toStr (parse c))),
              green = green (parse (rgbaString toStr (parse c))),
              blue = blue (parse (rgbaString toStr (parse c))), alpha = a\<rparr>)"
    using f assms
    by (simp add: svg_draw_Some getAttribute_attr styleAttributes_def colorUtil_toRGBA_Some
          colorUtil_toRGBA_None rgbaString_not_none)
next
  assume l: "lineColor st = Some c' \<and> lineOpacity st = Some a'"
  show "strokeStyles (snd (canvas_draw (colorUtil_toRGBA parse toStr) Context2D (Some st) s))
         = strokeStyles s
           @ (if lineWidth st = Some 0 then []
              else [rgbaString toStr \<lparr>red = red (parse c'), green = green (parse c'),
                      blue = blue (parse c'), alpha = a'\<rparr>])"
    using l
    by (cases "fillColor st")
       (simp_all add: canvas_draw_Context drawCommands_def strokeStyles_append
          colorUtil_toRGBA_Some)
  show "getAttribute (snd (svg_draw (colorUtil_toRGBA parse toStr) toStr element (Some st) d))
         element ''stroke''
         = Some (rgbaString toStr
             \<lparr>red = red (parse (rgbaString toStr (parse c'))),
              green = green (parse (rgbaString toStr (parse c'))),
              blue = blue (parse (rgbaString toStr (parse c'))), alpha = a'\<rparr>)"
    using l assms
    by (simp add: svg_draw_Some getAttribute_attr styleAttributes_def colorUtil_toRGBA_Some
          colorUtil_toRGBA_None rgbaString_not_none)
qed

theorem explicit_opacity_overrides_alpha_witness:
  "(1::nat) < length sampleDocument
   \<and> fillColor (noStyle\<lparr>fillColor := Some ''#ff0000'', fillOpacity := Some 0,
         lineColor := Some ''blue'', lineOpacity := Some 0\<rparr>) = Some ''#ff0000''
   \<and> fillOpacity (noStyle\<lparr>fillColor := Some ''#ff0000'', fillOpacity := Some 0,
         lineColor := Some ''blue'', lineOpacity := Some 0\<rparr>) = Some 0
   \<and> lineColor (noStyle\<lparr>fillColor := Some ''#ff0000'', fillOpacity := Some 0,
         lineColor := Some ''blue'', lineOpacity := Some 0\<rparr>) = Some ''blue''
   \<and> lineOpacity (noStyle\<lparr>fillColor := Some ''#ff0000'', fillOpacity := Some 0,
         lineColor := Some ''blue'', lineOpacity := Some 0\<rparr>) = Some 0
   \<and> fillStyles (snd (canvas_draw (colorUtil_toRGBA sampleColor showInt) Context2D
         (Some (noStyle\<lparr>fillColor := Some ''#ff0000'', fillOpacity := Some 0,
            lineColor := Some ''blue'', lineOpacity := Some 0\<rparr>)) []))
        = [''rgba(255,0,0,0)'']
   \<and> getAttribute (snd (svg_draw (colorUtil_toRGBA sampleColor showInt) showInt 1
         (Some (noStyle\<lparr>fillColor := Some ''#ff0000'', fillOpacity := Some 0,
            lineColor := Some ''blue'', lineOpacity := Some 0\<rparr>)) sampleDocument))
         1 ''fill'' = Some ''rgba(255,0,0,0)''
   \<and> strokeStyles (snd (canvas_draw (colorUtil_toRGBA sampleColor showInt) Context2D
         (Some (noStyle\<lparr>fillColor := Some ''#ff0000'', fillOpacity := Some 0,
            lineColor := Some ''blue'', lineOpacity := Some 0\<rparr>)) []))
        = [''rgba(0,0,255,0)'']
   \<and> getAttribute (snd (svg_draw (colorUtil_toRGBA sampleColor showInt) showInt 1
         (Some (noStyle\<lparr>fillColor := Some ''#ff0000'', fillOpacity := Some 0,
            lineColor := Some ''blue'', lineOpacity := Some 0\<rparr>)) sampleDocument))
         1 ''stroke'' = Some ''rgba(0,0,255,0)''"
proof -
  have h: "(1::nat) < length sampleDocument" by (simp add: sampleDocument_def)
  show ?thesis
    using h explicit_opacity_overrides_alpha [OF h,
        of "noStyle\<lparr>fillColor := Some ''#ff0000'', fillOpacity := Some 0,
              lineColor := Some ''blue'', lineOpacity := Some 0\<rparr>"
           "''#ff0000''" 0 sampleColor showInt "[]" "''blue''" 0]
    by (simp add: noStyle_def rgbaString_def sampleColor_def showInt_def)
qed

end
